theory Spec2Isabelle
  imports Complex_Main "HOL-Library.Log_Nat"
begin

section \<open>The scale classes of bqplot/scales.py\<close>

text \<open>
  The module declares eight classes, \<open>Scale\<close> and seven classes derived from it. A class
  body is a list of trait declarations (typed attributes with a default value) of the
  traitlets library that the module imports from IPython:
  \<^verbatim>\<open>min = Float(default_value=None, sync=True, allow_none=True)\<close>.
  The theory holds the declarations as data (one table per class body, in the order of the
  source), the inheritance chain of every class, and the behaviour that the declarations
  have in a running object: creating an object, assigning an attribute, and reading the
  state that is sent to the browser.

  \<open>Scale\<close> itself derives from IPython's \<open>Widget\<close> (line 43). What \<open>Widget\<close> and its bases
  declare belongs to IPython, not to this module: it is a parameter of every operation
  below, the library, and a scale inherits its traits after those of the module's own
  classes. One trait of \<open>Widget\<close> is written out, because reading the state depends on it:
  \<open>keys\<close>, the list of the names that the state holds.
\<close>

subsection \<open>Python values\<close>

text \<open>
  The values that the traits of the module hold or are offered. A float stands for the
  number it denotes (there is no arithmetic on it anywhere in the module; the values that
  are no numbers are left out) and a date for a
  point in time counted in days. A class stands for its method resolution order: its own
  name first, then the names of the classes it derives from, so that \<open>issubclass\<close> is
  membership in this list. A byte string that is plain ASCII is identified with its text.
\<close>

datatype "value" =
    VNone
  | VBool bool
  | VInt int
  | VFloat real
  | VStr string
  | VList "value list"
  | VDate int
  | VClass "string list"

text \<open>
  Python's \<open>==\<close> on these values: \<open>bool\<close> is a subclass of \<open>int\<close>, and the three kinds of
  number compare by the number they denote; lists compare element by element; values of
  different kinds are unequal.
\<close>

fun num_of :: "value \<Rightarrow> real option" where
  "num_of (VBool b) = Some (if b then 1 else 0)"
| "num_of (VInt i) = Some (of_int i)"
| "num_of (VFloat r) = Some r"
| "num_of _ = None"

fun py_eq :: "value \<Rightarrow> value \<Rightarrow> bool"
  and py_eq_list :: "value list \<Rightarrow> value list \<Rightarrow> bool" where
  "py_eq (VList xs) (VList ys) = py_eq_list xs ys"
| "py_eq (VList xs) w = False"
| "py_eq v (VList ys) = False"
| "py_eq v w = (case (num_of v, num_of w) of
       (Some a, Some b) \<Rightarrow> a = b
     | (None, None) \<Rightarrow> v = w
     | _ \<Rightarrow> False)"
| "py_eq_list [] [] = True"
| "py_eq_list (x # xs) (y # ys) = (py_eq x y \<and> py_eq_list xs ys)"
| "py_eq_list _ _ = False"

subsection \<open>Trait declarations\<close>

text \<open>
  The trait types that the module uses. \<open>Float\<close>, \<open>Bool\<close>, \<open>Unicode\<close>, \<open>List\<close>, \<open>Enum\<close> and
  \<open>Type\<close> are imported from \<open>IPython.utils.traitlets\<close> (line 38). \<open>Enum\<close> carries its list
  of admissible values, and \<open>Type\<close> the name of the class that its values must derive
  from. \<open>Date\<close> is imported from the module \<open>traits\<close> of this package (line 40). A trait type
  of the library that the module does not use is \<open>Foreign\<close>, given by its validation: the
  value it stores for a value it is offered, or nothing when it raises.
\<close>

datatype trait_type =
    Float
  | Bool
  | Unicode
  | List
  | Enum "string list"
  | Type string
  | Date
  | Foreign "value \<Rightarrow> value option"

text \<open>
  A declaration: the trait type, the default value, whether \<open>None\<close> may be assigned, and
  the \<open>sync\<close> tag that marks a trait as part of the state shared with the browser.
\<close>

record trait =
  ttype :: trait_type
  default_value :: "value"
  allow_none :: bool
  sync :: bool

text \<open>
  The ways a declaration is written in the source. Where a keyword is not given, the
  library's own default stands for it: \<open>allow_none\<close> is \<open>False\<close> for \<open>Float\<close>, \<open>Bool\<close> and
  \<open>Unicode\<close> and \<open>True\<close> for \<open>List\<close>, \<open>Enum\<close> and \<open>Type\<close> (the IPython 3 series, for which the
  module is written: it is the first with \<open>allow_none\<close> on every trait type and the last
  with \<open>IPython.html.widgets\<close>); a \<open>List\<close> declared without a default starts empty; a \<open>Type\<close>
  declared with a default class alone, as in \<^verbatim>\<open>Type(Float, sync=False)\<close>, takes that class
  as the class its values must derive from.
\<close>

text \<open>
  The two classes that the module uses as values: the trait type \<open>Float\<close> of the library,
  and the trait type \<open>Date\<close> of the package (a trait type like the others; its module is
  not among the sources). \<open>CFloat\<close> is the library's casting variant of \<open>Float\<close>, which
  derives from it.
\<close>

definition Float_class :: "value" where
  "Float_class = VClass [''Float'', ''TraitType'', ''object'']"

definition Date_class :: "value" where
  "Date_class = VClass [''Date'', ''TraitType'', ''object'']"

definition CFloat_class :: "value" where
  "CFloat_class = VClass [''CFloat'', ''Float'', ''TraitType'', ''object'']"

definition mk_trait :: "trait_type \<Rightarrow> value \<Rightarrow> bool \<Rightarrow> bool \<Rightarrow> trait" where
  "mk_trait ty d an s = \<lparr>ttype = ty, default_value = d, allow_none = an, sync = s\<rparr>"

subsection \<open>The class bodies\<close>

datatype scale_class =
    Scale
  | LinearScale
  | LogScale
  | DateScale
  | OrdinalScale
  | ColorScale
  | DateColorScale
  | OrdinalColorScale

text \<open>The trait declarations of each class body, in the order of the source.\<close>

fun declared :: "scale_class \<Rightarrow> (string \<times> trait) list" where
  "declared Scale =
    [(''domain_class'', mk_trait (Type ''Float'') Float_class True False),
     (''reverse'', mk_trait Bool (VBool False) False True),
     (''allow_padding'', mk_trait Bool (VBool True) False True),
     (''_view_name'', mk_trait Unicode (VStr ''Scale'') False True),
     (''_model_name'', mk_trait Unicode (VStr ''ScaleModel'') False True)]"
| "declared LinearScale =
    [(''min'', mk_trait Float VNone True True),
     (''max'', mk_trait Float VNone True True),
     (''scale_range_type'', mk_trait Unicode (VStr ''numerical'') False True),
     (''_view_name'', mk_trait Unicode (VStr ''LinearScale'') False True),
     (''_model_name'', mk_trait Unicode (VStr ''LinearScaleModel'') False True)]"
| "declared LogScale =
    [(''min'', mk_trait Float VNone True True),
     (''max'', mk_trait Float VNone True True),
     (''scale_range_type'', mk_trait Unicode (VStr ''numerical'') False True),
     (''_view_name'', mk_trait Unicode (VStr ''LogScale'') False True),
     (''_model_name'', mk_trait Unicode (VStr ''LogScaleModel'') False True)]"
| "declared DateScale =
    [(''domain_class'', mk_trait (Type ''Date'') Date_class True False),
     (''min'', mk_trait Date VNone True True),
     (''max'', mk_trait Date VNone True True),
     (''date_format'', mk_trait Unicode (VStr []) False True),
     (''scale_range_type'', mk_trait Unicode (VStr ''numerical'') False True),
     (''_view_name'', mk_trait Unicode (VStr ''DateScale'') False True),
     (''_model_name'', mk_trait Unicode (VStr ''DateScaleModel'') False True)]"
| "declared OrdinalScale =
    [(''domain'', mk_trait List (VList []) True True),
     (''scale_range_type'', mk_trait Unicode (VStr ''numerical'') False True),
     (''_view_name'', mk_trait Unicode (VStr ''OrdinalScale'') False True),
     (''_model_name'', mk_trait Unicode (VStr ''OrdinalScaleModel'') False True)]"
| "declared ColorScale =
    [(''scale_type'', mk_trait (Enum [''linear'']) (VStr ''linear'') True True),
     (''colors'', mk_trait List (VList []) True True),
     (''min'', mk_trait Float VNone True True),
     (''max'', mk_trait Float VNone True True),
     (''mid'', mk_trait Float VNone True True),
     (''scheme'', mk_trait Unicode (VStr ''RdYlGn'') False True),
     (''scale_range_type'', mk_trait Unicode (VStr ''Color'') False True),
     (''_view_name'', mk_trait Unicode (VStr ''LinearColorScale'') False True),
     (''_model_name'', mk_trait Unicode (VStr ''LinearColorScaleModel'') False True)]"
| "declared DateColorScale =
    [(''min'', mk_trait Date VNone True True),
     (''max'', mk_trait Date VNone True True),
     (''mid'', mk_trait Unicode VNone True True),
     (''date_format'', mk_trait Unicode (VStr []) False True),
     (''scale_range_type'', mk_trait Unicode (VStr ''Color'') False True),
     (''_view_name'', mk_trait Unicode (VStr ''DateColorScale'') False True),
     (''_model_name'', mk_trait Unicode (VStr ''DateColorScaleModel'') False True)]"
| "declared OrdinalColorScale =
    [(''domain'', mk_trait List (VList []) True True),
     (''scale_range_type'', mk_trait Unicode (VStr ''Color'') False True),
     (''_view_name'', mk_trait Unicode (VStr ''OrdinalColorScale'') False True),
     (''_model_name'', mk_trait Unicode (VStr ''OrdinalScaleModel'') False True)]"

text \<open>
  The inheritance chain of each class within the module, from the class itself up to
  \<open>Scale\<close>: \<^verbatim>\<open>class DateColorScale(ColorScale)\<close>, \<^verbatim>\<open>class ColorScale(Scale)\<close>. The method
  resolution order of the class is this chain followed by \<open>Widget\<close> and its bases
  (\<^verbatim>\<open>class Scale(Widget)\<close>), which \<open>class_traits\<close> below appends.
\<close>

fun mro :: "scale_class \<Rightarrow> scale_class list" where
  "mro Scale = [Scale]"
| "mro LinearScale = [LinearScale, Scale]"
| "mro LogScale = [LogScale, Scale]"
| "mro DateScale = [DateScale, Scale]"
| "mro OrdinalScale = [OrdinalScale, Scale]"
| "mro ColorScale = [ColorScale, Scale]"
| "mro DateColorScale = [DateColorScale, ColorScale, Scale]"
| "mro OrdinalColorScale = [OrdinalColorScale, ColorScale, Scale]"

text \<open>The name under which each class is defined.\<close>

fun class_name :: "scale_class \<Rightarrow> string" where
  "class_name Scale = ''Scale''"
| "class_name LinearScale = ''LinearScale''"
| "class_name LogScale = ''LogScale''"
| "class_name DateScale = ''DateScale''"
| "class_name OrdinalScale = ''OrdinalScale''"
| "class_name ColorScale = ''ColorScale''"
| "class_name DateColorScale = ''DateColorScale''"
| "class_name OrdinalColorScale = ''OrdinalColorScale''"

text \<open>
  The trait declarations of the module that a class has: those of its chain, a derived
  class before its bases.
\<close>

definition own_traits :: "scale_class \<Rightarrow> (string \<times> trait) list" where
  "own_traits C = concat (map declared (mro C))"

text \<open>The names of the fields that the module declares for a class.\<close>

definition own_names :: "scale_class \<Rightarrow> string list" where
  "own_names C = map fst (own_traits C)"

text \<open>The seven concrete variants: every class of the module but the base class.\<close>

definition variants :: "scale_class list" where
  "variants = [LinearScale, LogScale, DateScale, OrdinalScale,
               ColorScale, DateColorScale, OrdinalColorScale]"

subsection \<open>Validation\<close>

text \<open>
  Python's \<open>float\<close> of an integer: the nearest double, ties to the even one, and an
  \<open>OverflowError\<close> (here no value) when that would be \<open>2 ^ 1024\<close> or more. An integer below
  \<open>2 ^ 53\<close> in magnitude is a double as it is.
\<close>

definition float_of_int :: "int \<Rightarrow> real option" where
  "float_of_int i =
     (let a = \<bar>i\<bar> in
      if a < 2 ^ 53 then Some (of_int i)
      else
        (let s = floorlog 2 (nat a) - 53;
             q = a div 2 ^ s;
             r = a mod 2 ^ s;
             q' = (if 2 * r > 2 ^ s \<or> (2 * r = 2 ^ s \<and> odd q) then q + 1 else q);
             m = q' * 2 ^ s
         in if m < 2 ^ 1024 then Some (of_int (sgn i * m)) else None))"

text \<open>
  Each trait type checks the value it is offered and returns the value to store, or
  raises; \<open>None\<close> here is the raise.
  \<^item> \<open>Float\<close> takes a float as it is and turns an integer (a \<open>bool\<close> is one) into a float.
  \<^item> \<open>Bool\<close> takes a \<open>bool\<close>, \<open>Unicode\<close> a string, \<open>List\<close> a list (the module gives no
    element trait, so the elements are not looked at).
  \<^item> \<open>Enum\<close> takes a value that is among its admissible values.
  \<^item> \<open>Type\<close> takes a class that derives from the class of the trait (or is that class).
    A string is first imported as the dotted name of a class: a name that imports stands
    here for the class it names, and a string value for a name that does not import.
  The exception is a \<open>TraitError\<close>, but for two paths through Python itself, which the
  model does not tell apart from it: \<open>float\<close> of an integer that is too large raises
  \<open>OverflowError\<close>, and the import of an empty name raises \<open>ValueError\<close>.
\<close>

text \<open>
  Modelled from the spec: the validation of the \<open>Date\<close> trait type, whose module
  (\<open>bqplot/traits.py\<close>) is not among the sources. The spec calls the fields declared with
  it date-typed: the trait takes a date and nothing else.
\<close>

fun Date_validate :: "value \<Rightarrow> value option" where
  "Date_validate (VDate d) = Some (VDate d)"
| "Date_validate _ = None"

fun type_validate :: "trait_type \<Rightarrow> value \<Rightarrow> value option" where
  "type_validate Float (VFloat r) = Some (VFloat r)"
| "type_validate Float (VInt i) = map_option VFloat (float_of_int i)"
| "type_validate Float (VBool b) = Some (VFloat (if b then 1 else 0))"
| "type_validate Float _ = None"
| "type_validate Bool (VBool b) = Some (VBool b)"
| "type_validate Bool _ = None"
| "type_validate Unicode (VStr s) = Some (VStr s)"
| "type_validate Unicode _ = None"
| "type_validate List (VList xs) = Some (VList xs)"
| "type_validate List _ = None"
| "type_validate (Enum vals) v = (if v \<in> set (map VStr vals) then Some v else None)"
| "type_validate (Type k) (VClass ms) = (if k \<in> set ms then Some (VClass ms) else None)"
| "type_validate (Type k) _ = None"
| "type_validate Date v = Date_validate v"
| "type_validate (Foreign f) v = f v"

text \<open>
  \<^verbatim>\<open>
  def _validate(self, obj, value):
      if value is None and self.allow_none:
          return value
      if hasattr(self, 'validate'):
          value = self.validate(obj, value)
      return value
  \<close>
\<close>

definition validate :: "trait \<Rightarrow> value \<Rightarrow> value option" where
  "validate t v =
     (if v = VNone \<and> allow_none t then Some v else type_validate (ttype t) v)"

subsection \<open>The library\<close>

text \<open>
  What a scale inherits from \<open>Widget\<close> and its bases, which are not part of the module:
  the traits they declare, in the order of attribute lookup, and the names of the other
  attributes they define (methods, properties, class attributes, the dictionaries in which
  an object keeps its trait values). The default of every trait is a value that the trait
  accepts as it is, as in any class of which objects can be created.
\<close>

typedef library =
  "{(ts :: (string \<times> trait) list, ns :: string list).
      \<forall>(n, t) \<in> set ts. validate t (default_value t) = Some (default_value t)}"
  by (rule exI [of _ "([], [])"]) simp

definition widget_traits :: "library \<Rightarrow> (string \<times> trait) list" where
  "widget_traits L = fst (Rep_library L)"

definition widget_attrs :: "library \<Rightarrow> string list" where
  "widget_attrs L = snd (Rep_library L)"

text \<open>
  The trait \<open>keys\<close> of \<open>Widget\<close>, \<^verbatim>\<open>keys = List()\<close>, comes first among the traits of the
  library. Its value in a new object is not the empty list of the declaration but what
  \<open>_keys_default\<close> returns (see \<open>keys\<close> below).
\<close>

definition Widget_traits :: "library \<Rightarrow> (string \<times> trait) list" where
  "Widget_traits L = (''keys'', mk_trait List (VList []) True False) # widget_traits L"

text \<open>
  Attribute lookup on a class: the declarations of the chain, those of a derived class
  before those of its bases and those of the module before those of the library, so that
  the first entry for a name is the one in force.
\<close>

definition class_traits :: "library \<Rightarrow> scale_class \<Rightarrow> (string \<times> trait) list" where
  "class_traits L C = own_traits C @ Widget_traits L"

definition find_trait :: "library \<Rightarrow> scale_class \<Rightarrow> string \<Rightarrow> trait option" where
  "find_trait L C name = map_of (class_traits L C) name"

definition trait_names :: "library \<Rightarrow> scale_class \<Rightarrow> string list" where
  "trait_names L C = remdups (map fst (class_traits L C))"

text \<open>
  The default of \<open>keys\<close>: the names of the traits tagged \<open>sync\<close>, those of the library
  included.
  \<^verbatim>\<open>
  def _keys_default(self):
      return [name for name in self.traits(sync=True)]
  \<close>
\<close>

definition keys :: "library \<Rightarrow> scale_class \<Rightarrow> string list" where
  "keys L C =
     filter (\<lambda>name. case find_trait L C name of None \<Rightarrow> False | Some t \<Rightarrow> sync t)
       (trait_names L C)"

subsection \<open>Objects\<close>

text \<open>
  A scale object: its class, the values of its traits (\<open>_trait_values\<close>), its plain
  attributes (the entries of the instance dictionary that are no traits), and the names
  of the traits whose change has been announced (the calls of \<open>_notify_trait\<close>, oldest
  first), on which the widget pushes the new value to the browser.
\<close>

record scale =
  klass :: scale_class
  trait_values :: "string \<rightharpoonup> value"
  attrs :: "string \<rightharpoonup> value"
  notified :: "string list"

text \<open>The exception that an operation raises (see the note on validation above).\<close>

datatype error = TraitError

text \<open>
  Creating an object gives every trait of the class its default value, validated like
  any other value; \<open>keys\<close> gets the list that \<open>_keys_default\<close> returns.
\<close>

fun init_traits :: "library \<Rightarrow> scale_class \<Rightarrow> string list \<Rightarrow> (string \<rightharpoonup> value) \<Rightarrow>
    error + (string \<rightharpoonup> value)" where
  "init_traits L C [] tv = Inr tv"
| "init_traits L C (name # names) tv =
     (case find_trait L C name of
        None \<Rightarrow> init_traits L C names tv
      | Some t \<Rightarrow>
          (case validate t (default_value t) of
             None \<Rightarrow> Inl TraitError
           | Some dv \<Rightarrow> init_traits L C names (tv(name \<mapsto> dv))))"

definition new :: "library \<Rightarrow> scale_class \<Rightarrow> error + scale" where
  "new L C =
     (case init_traits L C (trait_names L C) Map.empty of
        Inl e \<Rightarrow> Inl e
      | Inr tv \<Rightarrow>
          Inr \<lparr>klass = C, trait_values = tv(''keys'' \<mapsto> VList (map VStr (keys L C))),
               attrs = Map.empty, notified = []\<rparr>)"

text \<open>
  Attribute assignment \<^verbatim>\<open>obj.name = value\<close>. For a name that the class declares or
  inherits as a trait, the descriptor's \<open>__set__\<close> runs:
  \<^verbatim>\<open>
  def __set__(self, obj, value):
      new_value = self._validate(obj, value)
      try:
          old_value = obj._trait_values[self.name]
      except KeyError:
          old_value = None
      obj._trait_values[self.name] = new_value
      try:
          silent = bool(old_value == new_value)
      except:
          silent = False
      if silent is not True:
          obj._notify_trait(self.name, old_value, new_value)
  \<close>
  For any other name Python stores the value in the instance dictionary: the module does
  not restrict the attributes of an object. Where the name is one of the other attributes
  of the library, what the stored value does to the object is the library's matter and
  not modelled. The result is the error raised, if any, and the object as it is after the
  statement.
\<close>

definition setattr :: "library \<Rightarrow> scale \<Rightarrow> string \<Rightarrow> value \<Rightarrow> error option \<times> scale" where
  "setattr L obj name v =
     (case find_trait L (klass obj) name of
        None \<Rightarrow> (None, obj\<lparr>attrs := (attrs obj)(name \<mapsto> v)\<rparr>)
      | Some t \<Rightarrow>
          (case validate t v of
             None \<Rightarrow> (Some TraitError, obj)
           | Some new_value \<Rightarrow>
               (let old_value = (case trait_values obj name of None \<Rightarrow> VNone | Some x \<Rightarrow> x);
                    obj' = obj\<lparr>trait_values := (trait_values obj)(name \<mapsto> new_value)\<rparr>
                in (None, if py_eq old_value new_value then obj'
                          else obj'\<lparr>notified := notified obj' @ [name]\<rparr>))))"

text \<open>
  The constructor call \<^verbatim>\<open>C(**kw)\<close>: a new object, then one assignment for each keyword
  argument; the first error ends the call and no object is returned.
  \<^verbatim>\<open>
  for key, value in iteritems(kw):
      setattr(self, key, value)
  \<close>
\<close>

fun set_all :: "library \<Rightarrow> scale \<Rightarrow> (string \<times> value) list \<Rightarrow> error + scale" where
  "set_all L obj [] = Inr obj"
| "set_all L obj ((key, v) # kw) =
     (case setattr L obj key v of
        (Some e, _) \<Rightarrow> Inl e
      | (None, obj') \<Rightarrow> set_all L obj' kw)"

definition construct ::
    "library \<Rightarrow> scale_class \<Rightarrow> (string \<times> value) list \<Rightarrow> error + scale" where
  "construct L C kw = (case new L C of Inl e \<Rightarrow> Inl e | Inr obj \<Rightarrow> set_all L obj kw)"

text \<open>
  The state of the object as the widget sends it: one entry for each name in the value
  of the object's trait \<open>keys\<close>, with the value that reading the attribute gives. The call
  raises when \<open>keys\<close> holds no list, and for an element of the list that is no string or
  names no trait with a value.
  \<^verbatim>\<open>
  keys = self.keys
  state = {}
  for k in keys:
      f = self.trait_metadata(k, 'to_json', self._trait_to_json)
      value = getattr(self, k)
      state[k] = f(value)
  return state
  \<close>
  The values of this module hold no widgets, on which alone \<open>to_json\<close> acts.
\<close>

fun get_items :: "library \<Rightarrow> scale \<Rightarrow> value list \<Rightarrow> error + (string \<times> value) list" where
  "get_items L obj [] = Inr []"
| "get_items L obj (VStr k # ks) =
     (case find_trait L (klass obj) k of
        None \<Rightarrow> Inl TraitError
      | Some t \<Rightarrow>
          (case trait_values obj k of
             None \<Rightarrow> Inl TraitError
           | Some v \<Rightarrow>
               (case get_items L obj ks of
                  Inl e \<Rightarrow> Inl e
                | Inr st \<Rightarrow> Inr ((k, v) # st))))"
| "get_items L obj (_ # ks) = Inl TraitError"

definition get_state :: "library \<Rightarrow> scale \<Rightarrow> error + (string \<times> value) list" where
  "get_state L obj =
     (case trait_values obj ''keys'' of
        Some (VList ks) \<Rightarrow> get_items L obj ks
      | _ \<Rightarrow> Inl TraitError)"

subsection \<open>A library for the examples\<close>

text \<open>
  The closed examples below are evaluated with one library: the three synchronised traits
  that \<open>Widget\<close> adds to the state in the IPython 3 series (\<open>_view_module\<close>, a string,
  \<open>msg_throttle\<close> and \<open>version\<close>, integers), and a few of its other attributes. The
  library's \<open>Int\<close> takes an integer (a \<open>bool\<close> is one) as it is.
\<close>

fun Int_validate :: "value \<Rightarrow> value option" where
  "Int_validate (VInt i) = Some (VInt i)"
| "Int_validate (VBool b) = Some (VBool b)"
| "Int_validate _ = None"

definition widget3 :: library where
  "widget3 = Abs_library
     ([(''_view_module'', mk_trait Unicode (VStr []) False True),
       (''msg_throttle'', mk_trait (Foreign Int_validate) (VInt 3) False True),
       (''version'', mk_trait (Foreign Int_validate) (VInt 0) False True)],
      [''get_state'', ''send_state'', ''_trait_values'', ''model_id''])"

subsection \<open>Invariants\<close>

text \<open>
  Exactly the traits of the object's class hold a value.
\<close>

definition has_values :: "library \<Rightarrow> scale \<Rightarrow> bool" where
  "has_values L obj =
     (\<forall>name. (trait_values obj name = None) = (find_trait L (klass obj) name = None))"

text \<open>
  Each trait of the module holds a value that its trait accepts unchanged.
\<close>

definition own_valid :: "scale \<Rightarrow> bool" where
  "own_valid obj =
     (\<forall>name t. map_of (own_traits (klass obj)) name = Some t \<longrightarrow>
        (\<exists>v. trait_values obj name = Some v \<and> validate t v = Some v))"

section \<open>Properties of the library layer\<close>

lemma validate_idem:
  "\<forall>f. ttype t \<noteq> Foreign f \<Longrightarrow> validate t v = Some w \<Longrightarrow> validate t w = Some w"
  by (cases "ttype t"; cases v) (auto simp: validate_def split: if_splits)

lemma own_traits_facts:
  "list_all (\<lambda>(n, t). (\<forall>f. ttype t \<noteq> Foreign f) \<and>
      validate t (default_value t) = Some (default_value t) \<and>
      (sync t \<or> n = ''domain_class'') \<and> n \<noteq> ''keys'') (own_traits C)"
  by (cases C)
    (simp_all add: own_traits_def mk_trait_def validate_def Float_class_def Date_class_def)

lemma own_traitD:
  assumes "map_of (own_traits C) name = Some t"
  shows "\<forall>f. ttype t \<noteq> Foreign f"
    and "validate t (default_value t) = Some (default_value t)"
    and "sync t \<or> name = ''domain_class''"
    and "name \<noteq> ''keys''"
proof -
  from assms have "(name, t) \<in> set (own_traits C)" by (rule map_of_SomeD)
  with own_traits_facts [of C]
  have "(\<forall>f. ttype t \<noteq> Foreign f) \<and> validate t (default_value t) = Some (default_value t) \<and>
      (sync t \<or> name = ''domain_class'') \<and> name \<noteq> ''keys''"
    by (auto simp: list_all_iff)
  then show "\<forall>f. ttype t \<noteq> Foreign f"
    and "validate t (default_value t) = Some (default_value t)"
    and "sync t \<or> name = ''domain_class''"
    and "name \<noteq> ''keys''"
    by simp_all
qed

lemma keys_not_own: "map_of (own_traits C) ''keys'' = None"
proof (cases "map_of (own_traits C) ''keys''")
  case None
  then show ?thesis .
next
  case (Some t)
  from own_traitD(4) [OF this] show ?thesis by simp
qed

lemma widget_defaults_valid:
  assumes "(n, t) \<in> set (widget_traits L)"
  shows "validate t (default_value t) = Some (default_value t)"
proof -
  have "Rep_library L \<in> {(ts, ns).
      \<forall>(n, t) \<in> set ts. validate t (default_value t) = Some (default_value t)}"
    by (rule Rep_library)
  with assms show ?thesis
    by (auto simp: widget_traits_def split_beta)
qed

lemma find_trait_chain:
  "find_trait L C name =
     (case map_of (concat (map declared (mro C))) name of
        Some t \<Rightarrow> Some t
      | None \<Rightarrow> map_of (Widget_traits L) name)"
  by (simp add: find_trait_def class_traits_def own_traits_def map_add_def)

lemma find_trait_own:
  "map_of (own_traits C) name = Some t \<Longrightarrow> find_trait L C name = Some t"
  by (simp add: find_trait_chain own_traits_def)

lemma find_trait_keys:
  "find_trait L C ''keys'' = Some (mk_trait List (VList []) True False)"
  using keys_not_own [of C] by (simp add: find_trait_chain own_traits_def Widget_traits_def)

lemma find_trait_cases:
  assumes "find_trait L C name = Some t"
  shows "map_of (own_traits C) name = Some t \<or>
         (map_of (own_traits C) name = None \<and> name = ''keys'' \<and>
            t = mk_trait List (VList []) True False) \<or>
         (map_of (own_traits C) name = None \<and> name \<noteq> ''keys'' \<and>
            map_of (widget_traits L) name = Some t)"
  using assms
  by (auto simp: find_trait_chain own_traits_def Widget_traits_def split: option.splits if_splits)

lemma defaults_valid:
  assumes "find_trait L C name = Some t"
  shows "validate t (default_value t) = Some (default_value t)"
  using find_trait_cases [OF assms]
proof (elim disjE conjE)
  assume "map_of (own_traits C) name = Some t"
  then show ?thesis by (rule own_traitD(2))
next
  assume "t = mk_trait List (VList []) True False"
  then show ?thesis by (simp add: validate_def mk_trait_def)
next
  assume "map_of (widget_traits L) name = Some t"
  then have "(name, t) \<in> set (widget_traits L)" by (rule map_of_SomeD)
  then show ?thesis by (rule widget_defaults_valid)
qed

lemma set_trait_names: "set (trait_names L C) = dom (find_trait L C)"
proof -
  have "find_trait L C = map_of (class_traits L C)"
    by (simp add: find_trait_def fun_eq_iff)
  then show ?thesis
    by (simp add: trait_names_def dom_map_of_conv_image_fst)
qed

lemma init_traits_eq:
  "init_traits L C names tv =
     Inr (\<lambda>n. if n \<in> set names \<and> find_trait L C n \<noteq> None
              then map_option default_value (find_trait L C n) else tv n)"
proof (induction names arbitrary: tv)
  case Nil
  show ?case by simp
next
  case (Cons name names)
  show ?case
  proof (cases "find_trait L C name")
    case None
    then show ?thesis
      by (auto simp: Cons.IH fun_eq_iff)
  next
    case (Some t)
    then show ?thesis
      by (auto simp: Cons.IH defaults_valid fun_eq_iff)
  qed
qed

lemma new_eq:
  "new L C =
     Inr \<lparr>klass = C,
          trait_values = (\<lambda>n. map_option default_value (find_trait L C n))
            (''keys'' \<mapsto> VList (map VStr (keys L C))),
          attrs = Map.empty, notified = []\<rparr>"
  by (auto simp: new_def init_traits_eq set_trait_names fun_eq_iff)

lemma keys_iff: "k \<in> set (keys L C) \<longleftrightarrow> (\<exists>t. find_trait L C k = Some t \<and> sync t)"
  using set_trait_names [of L C] by (auto simp: keys_def split: option.splits)

lemma distinct_keys: "distinct (keys L C)"
  by (simp add: keys_def trait_names_def)

lemma has_valuesD:
  assumes "has_values L obj"
  shows "find_trait L (klass obj) k = Some t \<Longrightarrow> \<exists>v. trait_values obj k = Some v"
    and "find_trait L (klass obj) k = None \<Longrightarrow> trait_values obj k = None"
proof -
  from assms have "(trait_values obj k = None) = (find_trait L (klass obj) k = None)"
    unfolding has_values_def by (rule spec)
  then show "find_trait L (klass obj) k = Some t \<Longrightarrow> \<exists>v. trait_values obj k = Some v"
    and "find_trait L (klass obj) k = None \<Longrightarrow> trait_values obj k = None"
    by auto
qed

lemma own_validD:
  "own_valid obj \<Longrightarrow> map_of (own_traits (klass obj)) k = Some t \<Longrightarrow>
   \<exists>v. trait_values obj k = Some v \<and> validate t v = Some v"
  by (simp add: own_valid_def)

lemma new_valid:
  assumes "new L C = Inr obj"
  shows "has_values L obj" and "own_valid obj" and "klass obj = C"
    and "trait_values obj ''keys'' = Some (VList (map VStr (keys L C)))"
proof -
  from assms have obj: "obj = \<lparr>klass = C,
          trait_values = (\<lambda>n. map_option default_value (find_trait L C n))
            (''keys'' \<mapsto> VList (map VStr (keys L C))),
          attrs = Map.empty, notified = []\<rparr>"
    by (simp add: new_eq)
  show "has_values L obj"
    by (simp add: obj has_values_def find_trait_keys)
  show "own_valid obj"
    unfolding own_valid_def
  proof (intro allI impI)
    fix name t assume a: "map_of (own_traits (klass obj)) name = Some t"
    then have o: "map_of (own_traits C) name = Some t" by (simp add: obj)
    from own_traitD(4) [OF o] find_trait_own [OF o, of L] own_traitD(2) [OF o]
    show "\<exists>v. trait_values obj name = Some v \<and> validate t v = Some v"
      by (simp add: obj)
  qed
  show "klass obj = C" by (simp add: obj)
  show "trait_values obj ''keys'' = Some (VList (map VStr (keys L C)))" by (simp add: obj)
qed

lemma setattr_klass: "klass (snd (setattr L obj name v)) = klass obj"
  by (simp add: setattr_def Let_def split: option.splits)

lemma setattr_other:
  "n \<noteq> name \<Longrightarrow> trait_values (snd (setattr L obj name v)) n = trait_values obj n"
  by (simp add: setattr_def Let_def split: option.splits)

lemma setattr_same:
  "find_trait L (klass obj) name = Some t \<Longrightarrow> validate t v = Some w \<Longrightarrow>
   fst (setattr L obj name v) = None \<and>
   trait_values (snd (setattr L obj name v)) name = Some w"
  by (simp add: setattr_def Let_def)

lemma setattr_reject:
  "find_trait L (klass obj) name = Some t \<Longrightarrow> validate t v = None \<Longrightarrow>
   fst (setattr L obj name v) = Some TraitError"
  by (simp add: setattr_def)

lemma setattr_cases:
  obtains (plain) "find_trait L (klass obj) name = None"
      "trait_values (snd (setattr L obj name v)) = trait_values obj"
    | (reject) t where "find_trait L (klass obj) name = Some t" "validate t v = None"
      "snd (setattr L obj name v) = obj"
    | (store) t w where "find_trait L (klass obj) name = Some t" "validate t v = Some w"
      "trait_values (snd (setattr L obj name v)) = (trait_values obj)(name \<mapsto> w)"
proof (cases "find_trait L (klass obj) name")
  case None
  then show ?thesis by (intro plain) (simp_all add: setattr_def)
next
  case (Some t)
  show ?thesis
  proof (cases "validate t v")
    case None
    with Some show ?thesis by (intro reject [of t]) (simp_all add: setattr_def)
  next
    case (Some w)
    with \<open>find_trait L (klass obj) name = Some t\<close> show ?thesis
      by (intro store [of t w]) (simp_all add: setattr_def Let_def)
  qed
qed

lemma setattr_has_values:
  assumes "has_values L obj"
  shows "has_values L (snd (setattr L obj name v))"
proof (cases rule: setattr_cases [of L obj name v])
  case plain
  with assms show ?thesis by (simp add: has_values_def setattr_klass)
next
  case (reject t)
  with assms show ?thesis by simp
next
  case (store t w)
  with assms show ?thesis by (auto simp: has_values_def setattr_klass)
qed

lemma setattr_own_valid:
  assumes "own_valid obj"
  shows "own_valid (snd (setattr L obj name v))"
proof (cases rule: setattr_cases [of L obj name v])
  case plain
  with assms show ?thesis by (simp add: own_valid_def setattr_klass)
next
  case (reject t)
  with assms show ?thesis by simp
next
  case (store t w)
  show ?thesis
    unfolding own_valid_def
  proof (intro allI impI)
    fix k u assume "map_of (own_traits (klass (snd (setattr L obj name v)))) k = Some u"
    then have o: "map_of (own_traits (klass obj)) k = Some u" by (simp add: setattr_klass)
    show "\<exists>x. trait_values (snd (setattr L obj name v)) k = Some x \<and> validate u x = Some x"
    proof (cases "k = name")
      case False
      with own_validD [OF assms o] show ?thesis by (simp add: store(3))
    next
      case True
      with find_trait_own [OF o, of L] store(1) have "u = t" by simp
      with validate_idem [OF own_traitD(1) [OF o] ] store(2) have "validate u w = Some w"
        by simp
      with True show ?thesis by (simp add: store(3))
    qed
  qed
qed

lemma set_all_Cons:
  "set_all L obj ((key, v) # kw) = Inr obj' \<Longrightarrow>
   fst (setattr L obj key v) = None \<and> set_all L (snd (setattr L obj key v)) kw = Inr obj'"
  by (cases "setattr L obj key v") (auto split: option.splits)

lemma set_all_step:
  "fst (setattr L obj key v) = None \<Longrightarrow>
   set_all L obj ((key, v) # kw) = set_all L (snd (setattr L obj key v)) kw"
  by (cases "setattr L obj key v") simp

lemma set_all_valid:
  "set_all L obj kw = Inr obj' \<Longrightarrow> has_values L obj \<Longrightarrow> own_valid obj \<Longrightarrow>
   has_values L obj' \<and> own_valid obj' \<and> klass obj' = klass obj"
proof (induction kw arbitrary: obj)
  case Nil
  then show ?case by simp
next
  case (Cons p kw)
  obtain key v where p: "p = (key, v)" by (cases p)
  from Cons.prems(1) have r: "set_all L (snd (setattr L obj key v)) kw = Inr obj'"
    unfolding p by (rule set_all_Cons [THEN conjunct2])
  from Cons.IH [OF r setattr_has_values [OF Cons.prems(2)] setattr_own_valid [OF Cons.prems(3)]]
  show ?case by (simp add: setattr_klass)
qed

lemma set_all_other:
  "set_all L obj kw = Inr obj' \<Longrightarrow> n \<notin> fst ` set kw \<Longrightarrow>
   trait_values obj' n = trait_values obj n"
proof (induction kw arbitrary: obj)
  case Nil
  then show ?case by simp
next
  case (Cons p kw)
  obtain key v where p: "p = (key, v)" by (cases p)
  from Cons.prems(1) have r: "set_all L (snd (setattr L obj key v)) kw = Inr obj'"
    unfolding p by (rule set_all_Cons [THEN conjunct2])
  from Cons.prems(2) p have "n \<noteq> key" "n \<notin> fst ` set kw" by auto
  with Cons.IH [OF r] show ?case by (simp add: setattr_other)
qed

lemma construct_new:
  "construct L C kw = Inr obj \<Longrightarrow> \<exists>obj0. new L C = Inr obj0 \<and> set_all L obj0 kw = Inr obj"
  by (simp add: construct_def new_eq)

lemma construct_valid:
  assumes "construct L C kw = Inr obj"
  shows "has_values L obj" and "own_valid obj" and "klass obj = C"
proof -
  from construct_new [OF assms] obtain obj0 where
    n: "new L C = Inr obj0" and s: "set_all L obj0 kw = Inr obj" by blast
  from set_all_valid [OF s new_valid(1) [OF n] new_valid(2) [OF n]] new_valid(3) [OF n]
  show "has_values L obj" and "own_valid obj" and "klass obj = C" by simp_all
qed

lemma construct_keys:
  assumes "construct L C kw = Inr obj" and "''keys'' \<notin> fst ` set kw"
  shows "trait_values obj ''keys'' = Some (VList (map VStr (keys L C)))"
proof -
  from construct_new [OF assms(1)] obtain obj0 where
    n: "new L C = Inr obj0" and s: "set_all L obj0 kw = Inr obj" by blast
  from set_all_other [OF s assms(2)] new_valid(4) [OF n] show ?thesis by simp
qed

lemma get_items_eq:
  assumes "has_values L obj" and "\<forall>k \<in> set ks. find_trait L (klass obj) k \<noteq> None"
  shows "get_items L obj (map VStr ks) = Inr (map (\<lambda>k. (k, the (trait_values obj k))) ks)"
  using assms(2)
proof (induction ks)
  case Nil
  show ?case by simp
next
  case (Cons k ks)
  then obtain t where t: "find_trait L (klass obj) k = Some t" by auto
  from has_valuesD(1) [OF assms(1) t] obtain v where "trait_values obj k = Some v" by blast
  with t Cons show ?case by simp
qed

lemma get_state_lookup:
  assumes h: "has_values L obj"
    and k: "trait_values obj ''keys'' = Some (VList (map VStr (keys L (klass obj))))"
  shows "\<exists>st. get_state L obj = Inr st \<and> map fst st = keys L (klass obj) \<and>
           st = map (\<lambda>k. (k, the (trait_values obj k))) (keys L (klass obj)) \<and>
           (\<forall>k. map_of st k =
              (if k \<in> set (keys L (klass obj)) then trait_values obj k else None))"
proof -
  let ?ks = "keys L (klass obj)"
  let ?st = "map (\<lambda>k. (k, the (trait_values obj k))) ?ks"
  have "\<forall>k \<in> set ?ks. find_trait L (klass obj) k \<noteq> None"
    by (auto simp: keys_iff)
  from get_items_eq [OF h this] have g: "get_state L obj = Inr ?st"
    by (simp add: get_state_def k)
  have "map_of ?st a = (if a \<in> set ?ks then trait_values obj a else None)" for a
  proof (cases "a \<in> set ?ks")
    case True
    then obtain t where "find_trait L (klass obj) a = Some t" by (auto simp: keys_iff)
    from has_valuesD(1) [OF h this] True show ?thesis
      by (auto simp: map_of_map_restrict)
  next
    case False
    then show ?thesis by (simp add: map_of_map_restrict)
  qed
  with g show ?thesis by (simp add: comp_def)
qed

lemma set_all_traits:
  assumes "\<forall>(k, v) \<in> set kw. \<exists>t. find_trait L (klass obj) k = Some t \<and> validate t v = Some v"
  shows "\<exists>obj'. set_all L obj kw = Inr obj' \<and>
           trait_values obj' = trait_values obj ++ map_of (rev kw)"
  using assms
proof (induction kw arbitrary: obj)
  case Nil
  then show ?case by simp
next
  case (Cons p kw)
  obtain key v where p: "p = (key, v)" by (cases p)
  let ?o1 = "snd (setattr L obj key v)"
  from Cons.prems p obtain t where
    t: "find_trait L (klass obj) key = Some t" "validate t v = Some v"
    by auto
  have ok: "fst (setattr L obj key v) = None"
    using setattr_same [OF t] by simp
  have tv: "trait_values ?o1 = (trait_values obj)(key \<mapsto> v)"
    using t by (simp add: setattr_def Let_def)
  have "\<forall>(k, v) \<in> set kw. \<exists>t. find_trait L (klass ?o1) k = Some t \<and> validate t v = Some v"
    using Cons.prems by (simp add: setattr_klass)
  from Cons.IH [OF this] obtain obj' where
    r: "set_all L ?o1 kw = Inr obj'"
    and tv': "trait_values obj' = trait_values ?o1 ++ map_of (rev kw)"
    by blast
  have "trait_values obj' = trait_values obj ++ map_of (rev (p # kw))"
    by (simp add: tv' tv p fun_eq_iff map_add_def split: option.splits)
  moreover have "set_all L obj (p # kw) = Inr obj'"
    using r unfolding p set_all_step [OF ok] .
  ultimately show ?case by blast
qed

lemma map_of_rev_distinct: "distinct (map fst kw) \<Longrightarrow> map_of (rev kw) = map_of kw"
  by (simp add: map_of_inject_set distinct_rev rev_map [symmetric])

lemma widget3_rep:
  "widget_traits widget3 =
     [(''_view_module'', mk_trait Unicode (VStr []) False True),
      (''msg_throttle'', mk_trait (Foreign Int_validate) (VInt 3) False True),
      (''version'', mk_trait (Foreign Int_validate) (VInt 0) False True)]"
  "widget_attrs widget3 = [''get_state'', ''send_state'', ''_trait_values'', ''model_id'']"
  by (simp_all add: widget_traits_def widget_attrs_def widget3_def Abs_library_inverse
      validate_def mk_trait_def)

lemma own_names_iff: "name \<in> set (own_names C) \<longleftrightarrow> map_of (own_traits C) name \<noteq> None"
  by (simp add: own_names_def map_of_eq_None_iff)

lemma own_kw_no_keys: "fst ` set kw \<subseteq> set (own_names C) \<Longrightarrow> ''keys'' \<notin> fst ` set kw"
  using keys_not_own [of C] by (auto simp: own_names_iff)

lemma get_items_cong:
  assumes "klass a = klass b" and "trait_values a = trait_values b"
  shows "get_items L a ks = get_items L b ks"
proof (induction ks)
  case Nil
  show ?case by simp
next
  case (Cons x ks)
  show ?case by (cases x) (simp_all add: assms Cons.IH cong: option.case_cong)
qed

lemma get_state_cong:
  assumes "klass a = klass b" and "trait_values a = trait_values b"
  shows "get_state L a = get_state L b"
proof -
  have e: "get_items L a = get_items L b"
    by (rule ext) (rule get_items_cong [OF assms])
  show ?thesis
    unfolding get_state_def assms(2) e by (rule refl)
qed

lemma scale_range_type_trait:
  "C \<in> set variants \<Longrightarrow>
   map_of (own_traits C) ''scale_range_type'' =
     Some (mk_trait Unicode
       (VStr (if C \<in> {LinearScale, LogScale, DateScale, OrdinalScale}
              then ''numerical'' else ''Color''))
       False True)"
  by (cases C) (simp_all add: variants_def own_traits_def)

lemma constructed_state:
  assumes c: "construct L C kw = Inr obj" and o: "fst ` set kw \<subseteq> set (own_names C)"
  shows "\<exists>st. get_state L obj = Inr st \<and>
           st = map (\<lambda>k. (k, the (trait_values obj k))) (keys L C) \<and>
           (\<forall>k. map_of st k = (if k \<in> set (keys L C) then trait_values obj k else None))"
proof -
  from construct_valid [OF c] have h: "has_values L obj" and k: "klass obj = C" by simp_all
  from construct_keys [OF c own_kw_no_keys [OF o]]
  have "trait_values obj ''keys'' = Some (VList (map VStr (keys L (klass obj))))"
    by (simp add: k)
  from get_state_lookup [OF h this] show ?thesis by (auto simp: k)
qed

lemmas example_simps =
  new_eq find_trait_chain Widget_traits_def widget3_rep mk_trait_def setattr_def validate_def
  get_state_def keys_def trait_names_def class_traits_def own_traits_def

section \<open>The range-type tag\<close>

text \<open>
  Claim C1 says that the \<open>scale_range_type\<close> entry of the state of a new object is
  \<open>numerical\<close> for LinearScale, LogScale, DateScale and OrdinalScale and \<open>Color\<close> for the
  three colour scales, and that a user can never set the tag. The second half does not
  hold: \<open>scale_range_type\<close> is declared as an ordinary \<open>Unicode\<close> trait, and an assignment
  of another string to it succeeds and shows in the state. Here a new LinearScale is given
  the tag \<open>Color\<close>.
\<close>

theorem scale_range_type_overwritten:
  "fst (setattr widget3 (projr (new widget3 LinearScale)) ''scale_range_type''
     (VStr ''Color'')) = None \<and>
   map_of (projr (get_state widget3 (snd (setattr widget3 (projr (new widget3 LinearScale))
     ''scale_range_type'' (VStr ''Color''))))) ''scale_range_type'' = Some (VStr ''Color'')"
  by (simp add: example_simps)

text \<open>
  Claim C1, amended: for each of the seven variants, the state of a new object holds under
  \<open>scale_range_type\<close> the tag of the variant's family (\<open>numerical\<close> for LinearScale,
  LogScale, DateScale and OrdinalScale, \<open>Color\<close> for ColorScale, DateColorScale and
  OrdinalColorScale). The tag is the default of an ordinary string trait: on every object
  of the variant that was constructed with parameters for the fields of the module,
  assigning a string to \<open>scale_range_type\<close> succeeds, and the state then holds that string.
\<close>

theorem scale_range_type_default_and_assignment:
  assumes "C \<in> set variants"
  shows "(\<exists>obj st. new L C = Inr obj \<and> get_state L obj = Inr st \<and>
            map_of st ''scale_range_type'' =
              Some (VStr (if C \<in> {LinearScale, LogScale, DateScale, OrdinalScale}
                          then ''numerical'' else ''Color''))) \<and>
         (\<forall>kw obj s. construct L C kw = Inr obj \<and> fst ` set kw \<subseteq> set (own_names C) \<longrightarrow>
            fst (setattr L obj ''scale_range_type'' (VStr s)) = None \<and>
            (\<exists>st. get_state L (snd (setattr L obj ''scale_range_type'' (VStr s))) = Inr st \<and>
               map_of st ''scale_range_type'' = Some (VStr s)))"
proof (intro conjI allI impI)
  let ?tag = "if C \<in> {LinearScale, LogScale, DateScale, OrdinalScale}
              then ''numerical'' else ''Color''"
  let ?t = "mk_trait Unicode (VStr ?tag) False True"
  have t: "find_trait L C ''scale_range_type'' = Some ?t"
    by (rule find_trait_own [OF scale_range_type_trait [OF assms]])
  have key: "''scale_range_type'' \<in> set (keys L C)"
    by (simp add: keys_iff t mk_trait_def)
  {
    obtain obj where n: "new L C = Inr obj" by (simp add: new_eq)
    from new_valid [OF n] have h: "has_values L obj" and k: "klass obj = C"
      and ks: "trait_values obj ''keys'' = Some (VList (map VStr (keys L (klass obj))))"
      by simp_all
    from get_state_lookup [OF h ks] obtain st where
      st: "get_state L obj = Inr st"
      and l: "\<And>k. map_of st k = (if k \<in> set (keys L C) then trait_values obj k else None)"
      by (auto simp: k)
    from n have "trait_values obj ''scale_range_type'' =
        map_option default_value (find_trait L C ''scale_range_type'')"
      by (auto simp: new_eq)
    also have "\<dots> = Some (VStr ?tag)"
      unfolding t by (simp add: mk_trait_def)
    finally have "trait_values obj ''scale_range_type'' = Some (VStr ?tag)" .
    with l [of "''scale_range_type''"] key
    have "map_of st ''scale_range_type'' = Some (VStr ?tag)" by simp
    with n st show "\<exists>obj st. new L C = Inr obj \<and> get_state L obj = Inr st \<and>
            map_of st ''scale_range_type'' = Some (VStr ?tag)" by blast
  }
  fix kw obj s
  assume a: "construct L C kw = Inr obj \<and> fst ` set kw \<subseteq> set (own_names C)"
  then have c: "construct L C kw = Inr obj" and o: "fst ` set kw \<subseteq> set (own_names C)"
    by simp_all
  from construct_valid [OF c] have h: "has_values L obj" and k: "klass obj = C" by simp_all
  have val: "validate ?t (VStr s) = Some (VStr s)"
    by (simp add: validate_def mk_trait_def)
  let ?o = "snd (setattr L obj ''scale_range_type'' (VStr s))"
  from t k have t': "find_trait L (klass obj) ''scale_range_type'' = Some ?t" by simp
  from setattr_same [OF t' val]
  show "fst (setattr L obj ''scale_range_type'' (VStr s)) = None" by simp
  from setattr_same [OF t' val]
  have tv: "trait_values ?o ''scale_range_type'' = Some (VStr s)" by simp
  have h': "has_values L ?o" by (rule setattr_has_values [OF h])
  have k': "klass ?o = C" by (simp add: setattr_klass k)
  have "trait_values ?o ''keys'' = trait_values obj ''keys''"
    by (rule setattr_other) simp
  with construct_keys [OF c own_kw_no_keys [OF o]]
  have ks: "trait_values ?o ''keys'' = Some (VList (map VStr (keys L (klass ?o))))"
    by (simp add: k')
  from get_state_lookup [OF h' ks] obtain st where
    st: "get_state L ?o = Inr st"
    and l: "\<And>k. map_of st k = (if k \<in> set (keys L C) then trait_values ?o k else None)"
    by (auto simp: k')
  from l [of "''scale_range_type''"] key tv
  have "map_of st ''scale_range_type'' = Some (VStr s)" by simp
  with st show "\<exists>st. get_state L ?o = Inr st \<and> map_of st ''scale_range_type'' = Some (VStr s)"
    by blast
qed

text \<open>
  The statement at ColorScale, for the object that the constructor gives without
  arguments.
\<close>

theorem scale_range_type_ColorScale:
  "ColorScale \<in> set variants \<and>
   (\<exists>obj st. new widget3 ColorScale = Inr obj \<and> get_state widget3 obj = Inr st \<and>
      map_of st ''scale_range_type'' = Some (VStr ''Color'')) \<and>
   (\<exists>obj. construct widget3 ColorScale [] = Inr obj \<and>
      fst (setattr widget3 obj ''scale_range_type'' (VStr ''numerical'')) = None \<and>
      (\<exists>st. get_state widget3 (snd (setattr widget3 obj ''scale_range_type''
          (VStr ''numerical''))) = Inr st \<and>
        map_of st ''scale_range_type'' = Some (VStr ''numerical'')))"
proof -
  have h: "ColorScale \<in> set variants" by (simp add: variants_def)
  obtain obj where c: "construct widget3 ColorScale [] = Inr obj"
    by (simp add: construct_def new_eq)
  have o: "fst ` set ([] :: (string \<times> value) list) \<subseteq> set (own_names ColorScale)" by simp
  from scale_range_type_default_and_assignment [OF h, of widget3] c o h show ?thesis
    by (intro conjI) (simp, simp, blast)
qed

section \<open>The view and model names\<close>

text \<open>
  Claim C2 says that for every variant the view name names the variant and the model
  name is the view name followed by \<open>Model\<close>. Two class bodies differ: OrdinalColorScale
  has the view name \<open>OrdinalColorScale\<close> and the model name \<open>OrdinalScaleModel\<close>, and
  ColorScale has the view name \<open>LinearColorScale\<close>.
\<close>

theorem view_model_names_differ:
  "trait_values (projr (new widget3 OrdinalColorScale)) ''_view_name'' =
     Some (VStr ''OrdinalColorScale'') \<and>
   trait_values (projr (new widget3 OrdinalColorScale)) ''_model_name'' =
     Some (VStr ''OrdinalScaleModel'') \<and>
   ''OrdinalScaleModel'' \<noteq> ''OrdinalColorScale'' @ ''Model'' \<and>
   trait_values (projr (new widget3 ColorScale)) ''_view_name'' =
     Some (VStr ''LinearColorScale'') \<and>
   ''LinearColorScale'' \<noteq> class_name ColorScale"
  by (simp add: new_eq find_trait_chain mk_trait_def)

text \<open>
  Claim C2, amended: every new object holds a view name and a model name, both strings.
  The view name is the name of the class, except for ColorScale, whose view name is
  \<open>LinearColorScale\<close>. For every class other than OrdinalColorScale the model name is the
  view name followed by \<open>Model\<close>.
\<close>

theorem view_and_model_names:
  "\<exists>obj v m. new L C = Inr obj \<and>
     trait_values obj ''_view_name'' = Some (VStr v) \<and>
     trait_values obj ''_model_name'' = Some (VStr m) \<and>
     (C \<noteq> ColorScale \<longrightarrow> v = class_name C) \<and>
     (C = ColorScale \<longrightarrow> v = ''LinearColorScale'') \<and>
     (C \<noteq> OrdinalColorScale \<longrightarrow> m = v @ ''Model'')"
  by (cases C) (simp_all add: new_eq find_trait_chain mk_trait_def)

text \<open>The statement at LinearScale: \<open>LinearScale\<close> and \<open>LinearScaleModel\<close>.\<close>

theorem view_and_model_names_LinearScale:
  "new widget3 LinearScale = Inr (projr (new widget3 LinearScale)) \<and>
   trait_values (projr (new widget3 LinearScale)) ''_view_name'' = Some (VStr ''LinearScale'') \<and>
   trait_values (projr (new widget3 LinearScale)) ''_model_name'' =
     Some (VStr ''LinearScaleModel'')"
  using view_and_model_names [of widget3 LinearScale] by auto

section \<open>Assignment to an attribute\<close>

text \<open>
  Claim C3 says that an assignment to a name that the class does not declare fails with
  an error of its own kind. Nothing in the module or the library rejects such a name: the
  assignment succeeds and the value becomes a plain attribute of the object.
\<close>

theorem undeclared_name_accepted:
  "find_trait widget3 LinearScale ''bogus'' = None \<and>
   fst (setattr widget3 (projr (new widget3 LinearScale)) ''bogus'' (VInt 1)) = None \<and>
   attrs (snd (setattr widget3 (projr (new widget3 LinearScale)) ''bogus'' (VInt 1)))
     ''bogus'' = Some (VInt 1)"
  by (simp add: example_simps)

text \<open>
  Claim C3, amended: an assignment to a name that is new to the object, that is, one that
  neither the classes of the module nor the library declare as a trait and that is none of
  the library's other attributes, raises nothing. It stores the value as a plain attribute
  and changes nothing else: every declared field holds the value it held before, nothing
  is announced, and the state sent to the browser is the same.
\<close>

theorem setattr_undeclared:
  assumes "find_trait L (klass obj) name = None" and "name \<notin> set (widget_attrs L)"
  shows "fst (setattr L obj name v) = None \<and>
         snd (setattr L obj name v) = obj\<lparr>attrs := (attrs obj)(name \<mapsto> v)\<rparr> \<and>
         trait_values (snd (setattr L obj name v)) = trait_values obj \<and>
         notified (snd (setattr L obj name v)) = notified obj \<and>
         get_state L (snd (setattr L obj name v)) = get_state L obj"
proof -
  from assms(1) have s: "setattr L obj name v = (None, obj\<lparr>attrs := (attrs obj)(name \<mapsto> v)\<rparr>)"
    by (simp add: setattr_def)
  have "get_state L (obj\<lparr>attrs := (attrs obj)(name \<mapsto> v)\<rparr>) = get_state L obj"
    by (rule get_state_cong) simp_all
  with s show ?thesis by simp
qed

text \<open>The statement for the name \<open>bogus\<close> on a new OrdinalScale.\<close>

theorem setattr_undeclared_OrdinalScale:
  "find_trait widget3 (klass (projr (new widget3 OrdinalScale))) ''bogus'' = None \<and>
   ''bogus'' \<notin> set (widget_attrs widget3) \<and>
   fst (setattr widget3 (projr (new widget3 OrdinalScale)) ''bogus'' (VStr ''x'')) = None \<and>
   trait_values (snd (setattr widget3 (projr (new widget3 OrdinalScale)) ''bogus''
     (VStr ''x''))) = trait_values (projr (new widget3 OrdinalScale))"
proof -
  have h: "find_trait widget3 (klass (projr (new widget3 OrdinalScale))) ''bogus'' = None"
    by (simp add: new_eq find_trait_chain Widget_traits_def widget3_rep)
  have a: "''bogus'' \<notin> set (widget_attrs widget3)"
    by (simp add: widget3_rep)
  from setattr_undeclared [OF h a] h a show ?thesis by simp
qed

text \<open>
  Claim C4: an assignment that fails leaves the object as it was. The value is validated
  before anything is stored or announced, so after the error no field has a new value (the
  one assigned to included) and nothing has been announced. The only error an assignment
  raises is that of a declared trait that rejects the value.
\<close>

theorem setattr_failure_atomic:
  assumes "fst (setattr L obj name v) = Some e"
  shows "snd (setattr L obj name v) = obj \<and> e = TraitError \<and>
         (\<exists>t. find_trait L (klass obj) name = Some t \<and> validate t v = None)"
  using assms by (auto simp: setattr_def Let_def split: option.splits)

text \<open>The statement for a string assigned to \<open>min\<close> of a new LinearScale.\<close>

theorem setattr_failure_atomic_LinearScale:
  "fst (setattr widget3 (projr (new widget3 LinearScale)) ''min'' (VStr ''low'')) =
     Some TraitError \<and>
   snd (setattr widget3 (projr (new widget3 LinearScale)) ''min'' (VStr ''low'')) =
     projr (new widget3 LinearScale)"
proof -
  have h: "fst (setattr widget3 (projr (new widget3 LinearScale)) ''min'' (VStr ''low'')) =
      Some TraitError"
    by (simp add: new_eq find_trait_chain setattr_def validate_def mk_trait_def)
  from setattr_failure_atomic [OF h] h show ?thesis by simp
qed

section \<open>The domain class\<close>

lemma domain_class_trait:
  "find_trait L C ''domain_class'' =
     Some (if C = DateScale then mk_trait (Type ''Date'') Date_class True False
           else mk_trait (Type ''Float'') Float_class True False)"
  by (cases C) (simp_all add: find_trait_chain)

text \<open>
  Claim C7 says that \<open>domain_class\<close> is fixed by the variant and that a user cannot set it.
  It is declared as a \<open>Type\<close> trait, which an assignment can change: a new LinearScale holds
  the class \<open>Float\<close>, and after the assignment of \<open>CFloat\<close>, a class derived from \<open>Float\<close>,
  it holds \<open>CFloat\<close>.
\<close>

theorem domain_class_assigned:
  "trait_values (projr (new widget3 LinearScale)) ''domain_class'' = Some Float_class \<and>
   fst (setattr widget3 (projr (new widget3 LinearScale)) ''domain_class'' CFloat_class) = None \<and>
   trait_values (snd (setattr widget3 (projr (new widget3 LinearScale)) ''domain_class'' CFloat_class))
     ''domain_class'' = Some CFloat_class \<and>
   CFloat_class \<noteq> Float_class"
  by (simp add: new_eq find_trait_chain mk_trait_def setattr_def validate_def
      Float_class_def CFloat_class_def)

text \<open>
  Claim C7, amended: the default of \<open>domain_class\<close> is fixed by the class, the class \<open>Date\<close>
  for DateScale and the class \<open>Float\<close> for every other class of the module. The field
  is not part of the state sent to the browser. It is an ordinary trait for the user: on
  an object of the class, the assignment of any class that derives from the default
  class succeeds and replaces the value, and the assignment of a class that does not
  derive from it fails with a \<open>TraitError\<close>.
\<close>

theorem domain_class_default_and_assignment:
  "(\<exists>obj. new L C = Inr obj \<and>
      trait_values obj ''domain_class'' =
        Some (if C = DateScale then Date_class else Float_class)) \<and>
   ''domain_class'' \<notin> set (keys L C) \<and>
   (\<forall>obj ms. klass obj = C \<and> (if C = DateScale then ''Date'' else ''Float'') \<in> set ms \<longrightarrow>
      fst (setattr L obj ''domain_class'' (VClass ms)) = None \<and>
      trait_values (snd (setattr L obj ''domain_class'' (VClass ms))) ''domain_class'' =
        Some (VClass ms)) \<and>
   (\<forall>obj ms. klass obj = C \<and> (if C = DateScale then ''Date'' else ''Float'') \<notin> set ms \<longrightarrow>
      fst (setattr L obj ''domain_class'' (VClass ms)) = Some TraitError)"
proof -
  let ?k = "if C = DateScale then ''Date'' else ''Float''"
  let ?d = "if C = DateScale then Date_class else Float_class"
  let ?t = "mk_trait (Type ?k) ?d True False"
  have t: "find_trait L C ''domain_class'' = Some ?t"
    using domain_class_trait [of L C] by (cases "C = DateScale") simp_all
  have "map_option default_value (find_trait L C ''domain_class'') = Some ?d"
    unfolding t by (simp add: mk_trait_def)
  then have new: "\<exists>obj. new L C = Inr obj \<and> trait_values obj ''domain_class'' = Some ?d"
    by (simp add: new_eq)
  have key: "''domain_class'' \<notin> set (keys L C)"
    unfolding keys_iff t by (simp add: mk_trait_def)
  have yes: "fst (setattr L obj ''domain_class'' (VClass ms)) = None \<and>
      trait_values (snd (setattr L obj ''domain_class'' (VClass ms))) ''domain_class'' =
        Some (VClass ms)"
    if "klass obj = C \<and> ?k \<in> set ms" for obj ms
  proof -
    from that t have t': "find_trait L (klass obj) ''domain_class'' = Some ?t" by simp
    from that have "validate ?t (VClass ms) = Some (VClass ms)"
      by (simp add: validate_def mk_trait_def)
    from setattr_same [OF t' this] show ?thesis .
  qed
  have no: "fst (setattr L obj ''domain_class'' (VClass ms)) = Some TraitError"
    if "klass obj = C \<and> ?k \<notin> set ms" for obj ms
  proof -
    from that t have t': "find_trait L (klass obj) ''domain_class'' = Some ?t" by simp
    from that have "validate ?t (VClass ms) = None"
      by (simp add: validate_def mk_trait_def)
    from setattr_reject [OF t' this] show ?thesis .
  qed
  from new key yes no show ?thesis by blast
qed

text \<open>The statement at DateScale, for its own class and for the class \<open>Float\<close>.\<close>

theorem domain_class_DateScale:
  "trait_values (projr (new widget3 DateScale)) ''domain_class'' = Some Date_class \<and>
   klass (projr (new widget3 DateScale)) = DateScale \<and>
   fst (setattr widget3 (projr (new widget3 DateScale)) ''domain_class'' Date_class) = None \<and>
   fst (setattr widget3 (projr (new widget3 DateScale)) ''domain_class'' Float_class) = Some TraitError"
proof -
  have k: "klass (projr (new widget3 DateScale)) = DateScale" by (simp add: new_eq)
  from domain_class_default_and_assignment [where L = widget3 and C = DateScale] k show ?thesis
    by (auto simp: Date_class_def Float_class_def)
qed

text \<open>
  Claim C10: neither OrdinalScale nor OrdinalColorScale (nor ColorScale, between
  OrdinalColorScale and Scale) declares \<open>domain_class\<close>, and a new object of either class
  holds the default inherited from Scale, the class \<open>Float\<close>.
\<close>

theorem ordinal_domain_class_inherited:
  "map_of (declared OrdinalScale) ''domain_class'' = None \<and>
   map_of (declared OrdinalColorScale) ''domain_class'' = None \<and>
   map_of (declared ColorScale) ''domain_class'' = None \<and>
   find_trait L OrdinalScale ''domain_class'' = map_of (declared Scale) ''domain_class'' \<and>
   find_trait L OrdinalColorScale ''domain_class'' = map_of (declared Scale) ''domain_class'' \<and>
   (\<exists>obj. new L OrdinalScale = Inr obj \<and> trait_values obj ''domain_class'' = Some Float_class) \<and>
   (\<exists>obj. new L OrdinalColorScale = Inr obj \<and>
      trait_values obj ''domain_class'' = Some Float_class)"
  by (simp add: new_eq find_trait_chain mk_trait_def)

section \<open>The domain of the ordinal scales\<close>

lemma domain_trait:
  "C \<in> {OrdinalScale, OrdinalColorScale} \<Longrightarrow>
   find_trait L C ''domain'' = Some (mk_trait List (VList []) True True)"
  by (auto simp: find_trait_chain)

text \<open>
  Claim C8 says that constructing an ordinal scale with a repeated value in its domain
  fails. The \<open>domain\<close> is declared as a plain \<open>List\<close>, whose elements are not looked at:
  the constructor accepts the list \<open>a, b, a\<close> and stores it as given.
\<close>

theorem duplicate_domain_accepted:
  "construct widget3 OrdinalScale [(''domain'', VList [VStr ''a'', VStr ''b'', VStr ''a''])] \<noteq>
     Inl TraitError \<and>
   trait_values (projr (construct widget3 OrdinalScale
       [(''domain'', VList [VStr ''a'', VStr ''b'', VStr ''a''])])) ''domain'' =
     Some (VList [VStr ''a'', VStr ''b'', VStr ''a''])"
  by (simp add: construct_def new_eq find_trait_chain mk_trait_def setattr_def validate_def)

text \<open>
  Claim C8, amended: constructing OrdinalScale or OrdinalColorScale with any list as its
  domain succeeds, and the object holds the list as it was given, in its order and with
  its repeated values.
\<close>

theorem domain_stored_as_given:
  assumes "C \<in> {OrdinalScale, OrdinalColorScale}"
  shows "\<exists>obj. construct L C [(''domain'', VList xs)] = Inr obj \<and>
           trait_values obj ''domain'' = Some (VList xs)"
proof -
  obtain obj0 where n: "new L C = Inr obj0" by (simp add: new_eq)
  from new_valid [OF n] have k: "klass obj0 = C" by simp
  let ?t = "mk_trait List (VList []) True True"
  from domain_trait [OF assms] k have t: "find_trait L (klass obj0) ''domain'' = Some ?t" by simp
  have val: "validate ?t (VList xs) = Some (VList xs)"
    by (simp add: validate_def mk_trait_def)
  from setattr_same [OF t val] have
    ok: "fst (setattr L obj0 ''domain'' (VList xs)) = None"
    and tv: "trait_values (snd (setattr L obj0 ''domain'' (VList xs))) ''domain'' = Some (VList xs)"
    by simp_all
  have "construct L C [(''domain'', VList xs)] = Inr (snd (setattr L obj0 ''domain'' (VList xs)))"
    unfolding construct_def n using set_all_step [OF ok, of "[]"] by simp
  with tv show ?thesis by blast
qed

text \<open>The statement for OrdinalColorScale and the list \<open>1, 2, 1\<close>.\<close>

theorem domain_stored_as_given_OrdinalColorScale:
  "OrdinalColorScale \<in> {OrdinalScale, OrdinalColorScale} \<and>
   (\<exists>obj. construct widget3 OrdinalColorScale [(''domain'', VList [VInt 1, VInt 2, VInt 1])] = Inr obj \<and>
      trait_values obj ''domain'' = Some (VList [VInt 1, VInt 2, VInt 1]))"
  using domain_stored_as_given [where L = widget3 and C = OrdinalColorScale and xs = "[VInt 1, VInt 2, VInt 1]"] by simp

section \<open>The fields of DateColorScale\<close>

lemma DateColorScale_traits:
  "find_trait L DateColorScale ''min'' = Some (mk_trait Date VNone True True)"
  "find_trait L DateColorScale ''max'' = Some (mk_trait Date VNone True True)"
  "find_trait L DateColorScale ''mid'' = Some (mk_trait Unicode VNone True True)"
  by (simp_all add: find_trait_chain)

lemma Date_validate_None:
  "v \<noteq> VNone \<Longrightarrow> \<forall>d. v \<noteq> VDate d \<Longrightarrow> validate (mk_trait Date VNone True True) v = None"
  by (cases v) (simp_all add: validate_def mk_trait_def)

text \<open>
  Claim C9: in DateColorScale, \<open>min\<close> and \<open>max\<close> are declared with the \<open>Date\<close> trait and
  \<open>mid\<close> with \<open>Unicode\<close>. On every object of the class, the assignment of a date to \<open>min\<close> or
  \<open>max\<close> succeeds, and the assignment of a value that is no date fails with \<open>TraitError\<close>; the
  assignment of a string to \<open>mid\<close> succeeds and that of a date to \<open>mid\<close> fails. The three
  fields are optional: \<open>None\<close>, which unsets a field, is no value in this sense.
\<close>

theorem DateColorScale_min_max_mid:
  assumes "klass obj = DateColorScale"
  shows "(\<forall>name \<in> {''min'', ''max''}.
            (\<forall>d. fst (setattr L obj name (VDate d)) = None \<and>
                 trait_values (snd (setattr L obj name (VDate d))) name = Some (VDate d)) \<and>
            (\<forall>v. v \<noteq> VNone \<and> (\<forall>d. v \<noteq> VDate d) \<longrightarrow>
                 fst (setattr L obj name v) = Some TraitError)) \<and>
         (\<forall>s. fst (setattr L obj ''mid'' (VStr s)) = None \<and>
              trait_values (snd (setattr L obj ''mid'' (VStr s))) ''mid'' = Some (VStr s)) \<and>
         (\<forall>d. fst (setattr L obj ''mid'' (VDate d)) = Some TraitError)"
proof (intro conjI ballI allI impI)
  let ?date = "mk_trait Date VNone True True"
  let ?text = "mk_trait Unicode VNone True True"
  have mid: "find_trait L (klass obj) ''mid'' = Some ?text"
    by (simp add: assms DateColorScale_traits)
  have ok: "validate ?date (VDate d) = Some (VDate d)"
    and str: "validate ?text (VStr s) = Some (VStr s)"
    and no: "validate ?text (VDate d) = None" for d s
    by (simp_all add: validate_def mk_trait_def)
  {
    fix name :: string and d
    assume "name \<in> {''min'', ''max''}"
    then have t: "find_trait L (klass obj) name = Some ?date"
      by (auto simp: assms DateColorScale_traits)
    from setattr_same [OF t ok]
    show "fst (setattr L obj name (VDate d)) = None"
      and "trait_values (snd (setattr L obj name (VDate d))) name = Some (VDate d)"
      by simp_all
  }
  {
    fix name :: string and v
    assume "name \<in> {''min'', ''max''}" and v: "v \<noteq> VNone \<and> (\<forall>d. v \<noteq> VDate d)"
    then have t: "find_trait L (klass obj) name = Some ?date"
      by (auto simp: assms DateColorScale_traits)
    from v have "validate ?date v = None" by (simp add: Date_validate_None)
    from setattr_reject [OF t this]
    show "fst (setattr L obj name v) = Some TraitError" .
  }
  fix s d
  from setattr_same [OF mid str]
  show "fst (setattr L obj ''mid'' (VStr s)) = None"
    and "trait_values (snd (setattr L obj ''mid'' (VStr s))) ''mid'' = Some (VStr s)"
    by simp_all
  from setattr_reject [OF mid no]
  show "fst (setattr L obj ''mid'' (VDate d)) = Some TraitError" .
qed

text \<open>The statement on a new DateColorScale, for a date and for a string.\<close>

theorem DateColorScale_min_max_mid_new:
  "klass (projr (new widget3 DateColorScale)) = DateColorScale \<and>
   fst (setattr widget3 (projr (new widget3 DateColorScale)) ''min'' (VDate 16500)) = None \<and>
   fst (setattr widget3 (projr (new widget3 DateColorScale)) ''max'' (VStr ''2015-03-01'')) = Some TraitError \<and>
   fst (setattr widget3 (projr (new widget3 DateColorScale)) ''mid'' (VStr ''2015-03-01'')) = None \<and>
   fst (setattr widget3 (projr (new widget3 DateColorScale)) ''mid'' (VDate 16500)) = Some TraitError"
proof -
  have k: "klass (projr (new widget3 DateColorScale)) = DateColorScale" by (simp add: new_eq)
  have v: "VStr ''2015-03-01'' \<noteq> VNone \<and> (\<forall>d. VStr ''2015-03-01'' \<noteq> VDate d)" by simp
  from DateColorScale_min_max_mid [where L = widget3, OF k] v k show ?thesis by auto
qed

section \<open>The state sent to the browser\<close>

lemma optional_field_trait:
  "k \<in> {''min'', ''max'', ''mid''} \<Longrightarrow> map_of (own_traits C) k = Some t \<Longrightarrow>
   default_value t = VNone \<and> sync t"
  by (cases C) (auto simp: own_traits_def mk_trait_def)

lemma new_default:
  "new L C = Inr obj \<Longrightarrow> n \<noteq> ''keys'' \<Longrightarrow>
   trait_values obj n = map_option default_value (find_trait L C n)"
  by (auto simp: new_eq)

lemma constructed_default:
  assumes c: "construct L C kw = Inr obj" and n: "n \<notin> fst ` set kw" "n \<noteq> ''keys''"
  shows "trait_values obj n = map_option default_value (find_trait L C n)"
proof -
  from construct_new [OF c] obtain obj0 where
    n0: "new L C = Inr obj0" and s: "set_all L obj0 kw = Inr obj" by blast
  from set_all_other [OF s n(1)] new_default [OF n0 n(2)] show ?thesis by simp
qed

lemma ColorScale_traits:
  "find_trait L ColorScale ''scale_type'' =
     Some (mk_trait (Enum [''linear'']) (VStr ''linear'') True True)"
  "find_trait L ColorScale ''colors'' = Some (mk_trait List (VList []) True True)"
  "find_trait L ColorScale ''min'' = Some (mk_trait Float VNone True True)"
  "find_trait L ColorScale ''max'' = Some (mk_trait Float VNone True True)"
  "find_trait L ColorScale ''mid'' = Some (mk_trait Float VNone True True)"
  "find_trait L ColorScale ''scheme'' = Some (mk_trait Unicode (VStr ''RdYlGn'') False True)"
  "find_trait L ColorScale ''scale_range_type'' =
     Some (mk_trait Unicode (VStr ''Color'') False True)"
  by (simp_all add: find_trait_chain)

lemma ColorScale_scenario:
  "\<exists>obj st. construct L ColorScale [(''colors'', VList cs), (''scheme'', VStr s)] = Inr obj \<and>
     get_state L obj = Inr st \<and>
     map_of st ''colors'' = Some (VList cs) \<and>
     map_of st ''scheme'' = Some (VStr s) \<and>
     map_of st ''scale_type'' = Some (VStr ''linear'') \<and>
     map_of st ''scale_range_type'' = Some (VStr ''Color'') \<and>
     map_of st ''min'' = Some VNone \<and>
     map_of st ''max'' = Some VNone \<and>
     map_of st ''mid'' = Some VNone"
proof -
  let ?kw = "[(''colors'', VList cs), (''scheme'', VStr s)]"
  obtain obj0 where n: "new L ColorScale = Inr obj0" by (simp add: new_eq)
  from new_valid [OF n] have k0: "klass obj0 = ColorScale" by simp
  have tv0: "trait_values obj0 a = map_option default_value (find_trait L ColorScale a)"
    if "a \<noteq> ''keys''" for a
    using new_default [OF n that] .
  have "\<forall>(k, v) \<in> set ?kw. \<exists>t. find_trait L (klass obj0) k = Some t \<and> validate t v = Some v"
    by (simp add: k0 ColorScale_traits validate_def mk_trait_def)
  from set_all_traits [OF this] obtain obj where
    r: "set_all L obj0 ?kw = Inr obj"
    and tv: "trait_values obj = trait_values obj0 ++ map_of (rev ?kw)"
    by blast
  have c: "construct L ColorScale ?kw = Inr obj"
    by (simp only: construct_def n r sum.case)
  have o: "fst ` set ?kw \<subseteq> set (own_names ColorScale)"
    by (simp add: own_names_def own_traits_def)
  from constructed_state [OF c o] obtain st where
    st: "get_state L obj = Inr st"
    and l: "\<And>k. map_of st k =
      (if k \<in> set (keys L ColorScale) then trait_values obj k else None)"
    by blast
  have keys: "''colors'' \<in> set (keys L ColorScale)" "''scheme'' \<in> set (keys L ColorScale)"
    "''scale_type'' \<in> set (keys L ColorScale)"
    "''scale_range_type'' \<in> set (keys L ColorScale)"
    "''min'' \<in> set (keys L ColorScale)" "''max'' \<in> set (keys L ColorScale)"
    "''mid'' \<in> set (keys L ColorScale)"
    by (simp_all add: keys_iff ColorScale_traits mk_trait_def)
  have "map_of st ''colors'' = Some (VList cs)" "map_of st ''scheme'' = Some (VStr s)"
    "map_of st ''scale_type'' = Some (VStr ''linear'')"
    "map_of st ''scale_range_type'' = Some (VStr ''Color'')"
    "map_of st ''min'' = Some VNone" "map_of st ''max'' = Some VNone"
    "map_of st ''mid'' = Some VNone"
    by (simp_all add: l keys tv tv0 ColorScale_traits mk_trait_def)
  with c st show ?thesis by blast
qed

text \<open>
  Claim C5 says that the state always holds \<open>scale_range_type\<close> and leaves out each of
  \<open>min\<close>, \<open>max\<close> and \<open>mid\<close> that is unset. The state holds an entry for every synchronised
  trait, whatever its value: for a ColorScale constructed with \<open>colors\<close> and \<open>scheme\<close> alone
  it holds \<open>min\<close> with the value \<open>None\<close>.
\<close>

theorem unset_min_in_state:
  "map_of (projr (get_state widget3 (projr (construct widget3 ColorScale
      [(''colors'', VList [VStr ''red'', VStr ''green'']), (''scheme'', VStr ''Viridis'')]))))
     ''min'' = Some VNone"
  by (simp add: construct_def example_simps)

text \<open>
  Claim C5, amended: take an object of one of the seven variants, constructed with
  parameters for fields of the module. Reading its state succeeds and gives one entry for
  each synchronised trait of the class, those of the library included, with the current
  value of the trait, whatever it is, and no other entry. The state always holds
  \<open>scale_range_type\<close>, a string, and each of \<open>min\<close>, \<open>max\<close> and \<open>mid\<close> that the variant
  declares has an entry with the current value of the field, which is \<open>None\<close> when the field
  was not among the parameters. In particular the state of a ColorScale constructed with
  \<open>colors\<close> and \<open>scheme\<close> alone holds both as given, \<open>scale_type\<close> \<open>linear\<close>,
  \<open>scale_range_type\<close> \<open>Color\<close>, and \<open>None\<close> under \<open>min\<close>, \<open>max\<close> and \<open>mid\<close>.
\<close>

theorem get_state_entries:
  "(construct L C kw = Inr obj \<and> fst ` set kw \<subseteq> set (own_names C) \<and> C \<in> set variants \<longrightarrow>
      (\<exists>st. get_state L obj = Inr st \<and> distinct (map fst st) \<and>
         (\<forall>k t. find_trait L C k = Some t \<and> sync t \<longrightarrow>
            (\<exists>v. trait_values obj k = Some v \<and> map_of st k = Some v)) \<and>
         (\<forall>k v. map_of st k = Some v \<longrightarrow> (\<exists>t. find_trait L C k = Some t \<and> sync t)) \<and>
         (\<exists>tag. map_of st ''scale_range_type'' = Some (VStr tag)) \<and>
         (\<forall>k \<in> {''min'', ''max'', ''mid''}. k \<in> set (own_names C) \<longrightarrow>
            (\<exists>v. trait_values obj k = Some v \<and> map_of st k = Some v) \<and>
            (k \<notin> fst ` set kw \<longrightarrow> map_of st k = Some VNone)))) \<and>
   (\<forall>cs s. \<exists>obj st.
      construct L ColorScale [(''colors'', VList cs), (''scheme'', VStr s)] = Inr obj \<and>
      get_state L obj = Inr st \<and>
      map_of st ''colors'' = Some (VList cs) \<and>
      map_of st ''scheme'' = Some (VStr s) \<and>
      map_of st ''scale_type'' = Some (VStr ''linear'') \<and>
      map_of st ''scale_range_type'' = Some (VStr ''Color'') \<and>
      map_of st ''min'' = Some VNone \<and>
      map_of st ''max'' = Some VNone \<and>
      map_of st ''mid'' = Some VNone)"
proof (intro conjI impI allI)
  fix cs s
  show "\<exists>obj st.
      construct L ColorScale [(''colors'', VList cs), (''scheme'', VStr s)] = Inr obj \<and>
      get_state L obj = Inr st \<and>
      map_of st ''colors'' = Some (VList cs) \<and>
      map_of st ''scheme'' = Some (VStr s) \<and>
      map_of st ''scale_type'' = Some (VStr ''linear'') \<and>
      map_of st ''scale_range_type'' = Some (VStr ''Color'') \<and>
      map_of st ''min'' = Some VNone \<and>
      map_of st ''max'' = Some VNone \<and>
      map_of st ''mid'' = Some VNone"
    by (rule ColorScale_scenario)
next
  assume a: "construct L C kw = Inr obj \<and> fst ` set kw \<subseteq> set (own_names C) \<and>
    C \<in> set variants"
  then have c: "construct L C kw = Inr obj" and o: "fst ` set kw \<subseteq> set (own_names C)"
    and C: "C \<in> set variants"
    by simp_all
  from construct_valid [OF c] have h: "has_values L obj" and v: "own_valid obj"
    and k: "klass obj = C"
    by simp_all
  from constructed_state [OF c o] obtain st where
    st: "get_state L obj = Inr st"
    and steq: "st = map (\<lambda>k. (k, the (trait_values obj k))) (keys L C)"
    and l: "\<And>k. map_of st k = (if k \<in> set (keys L C) then trait_values obj k else None)"
    by blast
  have d: "distinct (map fst st)"
    by (simp add: steq comp_def distinct_keys)
  have entry: "\<exists>w. trait_values obj n = Some w \<and> map_of st n = Some w"
    if "find_trait L C n = Some t" "sync t" for n t
  proof -
    from that have "n \<in> set (keys L C)" by (auto simp: keys_iff)
    moreover from that(1) k have "find_trait L (klass obj) n = Some t" by simp
    from has_valuesD(1) [OF h this] obtain w where "trait_values obj n = Some w" by blast
    ultimately show ?thesis by (simp add: l)
  qed
  have only: "\<exists>t. find_trait L C n = Some t \<and> sync t" if "map_of st n = Some w" for n w
  proof (cases "n \<in> set (keys L C)")
    case True
    then show ?thesis by (simp add: keys_iff)
  next
    case False
    with that show ?thesis by (simp add: l)
  qed
  have tag: "\<exists>tag. map_of st ''scale_range_type'' = Some (VStr tag)"
  proof -
    let ?t = "mk_trait Unicode
       (VStr (if C \<in> {LinearScale, LogScale, DateScale, OrdinalScale}
              then ''numerical'' else ''Color'')) False True"
    have o1: "map_of (own_traits C) ''scale_range_type'' = Some ?t"
      by (rule scale_range_type_trait [OF C])
    then have "map_of (own_traits (klass obj)) ''scale_range_type'' = Some ?t"
      by (simp only: k)
    from own_validD [OF v this] obtain w where
      w: "trait_values obj ''scale_range_type'' = Some w" and val: "validate ?t w = Some w"
      by blast
    from val obtain s where s: "w = VStr s"
      by (cases w) (simp_all add: validate_def mk_trait_def)
    have "sync ?t" by (simp add: mk_trait_def)
    from entry [OF find_trait_own [OF o1] this] w s show ?thesis by simp
  qed
  have opt: "(\<exists>w. trait_values obj n = Some w \<and> map_of st n = Some w) \<and>
      (n \<notin> fst ` set kw \<longrightarrow> map_of st n = Some VNone)"
    if n: "n \<in> {''min'', ''max'', ''mid''}" and own: "n \<in> set (own_names C)" for n
  proof -
    from own obtain t where t: "map_of (own_traits C) n = Some t"
      by (auto simp: own_names_iff)
    from optional_field_trait [OF n t] have dv: "default_value t = VNone" and sy: "sync t"
      by simp_all
    have f: "find_trait L C n = Some t" by (rule find_trait_own [OF t])
    from entry [OF f sy] obtain w where
      w: "trait_values obj n = Some w" "map_of st n = Some w" by blast
    have "map_of st n = Some VNone" if "n \<notin> fst ` set kw"
    proof -
      from constructed_default [OF c that own_traitD(4) [OF t]] f dv
      have "trait_values obj n = Some VNone" by simp
      with w show ?thesis by simp
    qed
    with w show ?thesis by blast
  qed
  have e1: "\<forall>k t. find_trait L C k = Some t \<and> sync t \<longrightarrow>
      (\<exists>v. trait_values obj k = Some v \<and> map_of st k = Some v)"
    using entry by blast
  have e2: "\<forall>k v. map_of st k = Some v \<longrightarrow> (\<exists>t. find_trait L C k = Some t \<and> sync t)"
    using only by blast
  have e3: "\<forall>k \<in> {''min'', ''max'', ''mid''}. k \<in> set (own_names C) \<longrightarrow>
      (\<exists>v. trait_values obj k = Some v \<and> map_of st k = Some v) \<and>
      (k \<notin> fst ` set kw \<longrightarrow> map_of st k = Some VNone)"
    using opt by blast
  from st d e1 e2 tag e3
  show "\<exists>st. get_state L obj = Inr st \<and> distinct (map fst st) \<and>
         (\<forall>k t. find_trait L C k = Some t \<and> sync t \<longrightarrow>
            (\<exists>v. trait_values obj k = Some v \<and> map_of st k = Some v)) \<and>
         (\<forall>k v. map_of st k = Some v \<longrightarrow> (\<exists>t. find_trait L C k = Some t \<and> sync t)) \<and>
         (\<exists>tag. map_of st ''scale_range_type'' = Some (VStr tag)) \<and>
         (\<forall>k \<in> {''min'', ''max'', ''mid''}. k \<in> set (own_names C) \<longrightarrow>
            (\<exists>v. trait_values obj k = Some v \<and> map_of st k = Some v) \<and>
            (k \<notin> fst ` set kw \<longrightarrow> map_of st k = Some VNone))"
    by (intro exI [of _ st] conjI)
qed

text \<open>
  The statement for a LinearScale constructed with \<open>max\<close> alone: \<open>min\<close> is in the state,
  with the value \<open>None\<close>.
\<close>

theorem get_state_entries_LinearScale:
  "\<exists>obj st. construct widget3 LinearScale [(''max'', VInt 100)] = Inr obj \<and>
     fst ` set [(''max'', VInt 100)] \<subseteq> set (own_names LinearScale) \<and>
     LinearScale \<in> set variants \<and>
     get_state widget3 obj = Inr st \<and>
     ''min'' \<in> set (own_names LinearScale) \<and>
     ''min'' \<notin> fst ` set [(''max'', VInt 100)] \<and>
     map_of st ''min'' = Some VNone"
proof -
  let ?kw = "[(''max'', VInt 100)]"
  have "\<exists>obj. construct widget3 LinearScale ?kw = Inr obj"
    by (simp add: construct_def example_simps float_of_int_def)
  then obtain obj where c: "construct widget3 LinearScale ?kw = Inr obj" by blast
  have o: "fst ` set ?kw \<subseteq> set (own_names LinearScale)"
    by (simp add: own_names_def own_traits_def)
  have h: "LinearScale \<in> set variants" by (simp add: variants_def)
  have m: "''min'' \<in> set (own_names LinearScale)"
    by (simp add: own_names_def own_traits_def)
  have u: "''min'' \<notin> fst ` set ?kw" by simp
  from get_state_entries [of widget3 LinearScale ?kw obj] c o h
  have "\<exists>st. get_state widget3 obj = Inr st \<and>
         (\<forall>k \<in> {''min'', ''max'', ''mid''}. k \<in> set (own_names LinearScale) \<longrightarrow>
            (\<exists>v. trait_values obj k = Some v \<and> map_of st k = Some v) \<and>
            (k \<notin> fst ` set ?kw \<longrightarrow> map_of st k = Some VNone))"
    by blast
  then obtain st where st: "get_state widget3 obj = Inr st"
    and e: "\<forall>k \<in> {''min'', ''max'', ''mid''}. k \<in> set (own_names LinearScale) \<longrightarrow>
            (\<exists>v. trait_values obj k = Some v \<and> map_of st k = Some v) \<and>
            (k \<notin> fst ` set ?kw \<longrightarrow> map_of st k = Some VNone)"
    by (elim exE conjE)
  have "''min'' \<in> {''min'', ''max'', ''mid''}" by simp
  with e m u have "map_of st ''min'' = Some VNone" by blast
  with c o h st m u show ?thesis
    by (intro exI [of _ obj] exI [of _ st] conjI)
qed

section \<open>The round trip through the state\<close>

text \<open>
  The object that the constructor gives for the state of an object of the same class,
  in any order of the entries, when the first object was constructed with parameters for
  fields of the module.
\<close>

lemma roundtrip:
  assumes c: "construct L C P = Inr obj" and o: "fst ` set P \<subseteq> set (own_names C)"
    and kw: "distinct (map fst kw)"
      "set kw = set (map (\<lambda>k. (k, the (trait_values obj k))) (keys L C))"
  shows "\<exists>obj'. construct L C kw = Inr obj' \<and> klass obj' = klass obj \<and>
           (\<forall>name. name \<noteq> ''domain_class'' \<longrightarrow>
              trait_values obj' name = trait_values obj name) \<and>
           trait_values obj' ''domain_class'' =
             Some (if C = DateScale then Date_class else Float_class) \<and>
           (''domain_class'' \<notin> fst ` set P \<longrightarrow> trait_values obj' = trait_values obj)"
proof -
  let ?st = "map (\<lambda>k. (k, the (trait_values obj k))) (keys L C)"
  from construct_valid [OF c] have h: "has_values L obj" and v: "own_valid obj"
    and k: "klass obj = C"
    by simp_all
  from construct_new [OF c] obtain obj0 where
    n: "new L C = Inr obj0" and s: "set_all L obj0 P = Inr obj" by blast
  from new_valid [OF n] have h0: "has_values L obj0" and v0: "own_valid obj0"
    and k0: "klass obj0 = C"
    and ks0: "trait_values obj0 ''keys'' = Some (VList (map VStr (keys L C)))"
    by simp_all
  have nokeys: "''keys'' \<notin> set (keys L C)"
    by (simp add: keys_iff find_trait_keys mk_trait_def)
  have dst: "distinct (map fst ?st)"
    by (simp add: comp_def distinct_keys)
  have "map_of kw = map_of ?st"
    using kw dst by (simp only: map_of_inject_set)
  with kw(1) have m: "map_of (rev kw) = map_of ?st"
    by (simp only: map_of_rev_distinct)
  have entries:
    "\<forall>(a, w) \<in> set kw. \<exists>t. find_trait L (klass obj0) a = Some t \<and> validate t w = Some w"
  proof (clarify)
    fix a w assume "(a, w) \<in> set kw"
    then have "(a, w) \<in> set ?st" by (simp only: kw(2))
    then have a: "a \<in> set (keys L C)" and w: "w = the (trait_values obj a)"
      by auto
    from a obtain t where t: "find_trait L C a = Some t" and sy: "sync t"
      by (auto simp: keys_iff)
    from a nokeys have ak: "a \<noteq> ''keys''" by auto
    have "validate t w = Some w"
    proof (cases "map_of (own_traits C) a")
      case (Some u)
      with find_trait_own [OF Some, of L] t have u: "map_of (own_traits (klass obj)) a = Some t"
        by (simp add: k)
      from own_validD [OF v u] w show ?thesis by auto
    next
      case None
      with find_trait_cases [OF t] ak have lib: "map_of (widget_traits L) a = Some t"
        by auto
      from None have "a \<notin> set (own_names C)" by (simp add: own_names_iff)
      with o have "a \<notin> fst ` set P" by auto
      from constructed_default [OF c this ak] t w have "w = default_value t" by simp
      moreover from lib have "(a, t) \<in> set (widget_traits L)" by (rule map_of_SomeD)
      then have "validate t (default_value t) = Some (default_value t)"
        by (rule widget_defaults_valid)
      ultimately show ?thesis by simp
    qed
    with t k0 show "\<exists>t. find_trait L (klass obj0) a = Some t \<and> validate t w = Some w"
      by simp
  qed
  from set_all_traits [OF entries] obtain obj' where
    r: "set_all L obj0 kw = Inr obj'"
    and tv: "trait_values obj' = trait_values obj0 ++ map_of ?st"
    by (auto simp: m)
  have c': "construct L C kw = Inr obj'"
    by (simp only: construct_def n r sum.case)
  have inkeys: "trait_values obj' a = trait_values obj a" if "a \<in> set (keys L C)" for a
  proof -
    from that obtain t where "find_trait L (klass obj) a = Some t"
      by (auto simp: keys_iff k)
    from has_valuesD(1) [OF h this] obtain w where "trait_values obj a = Some w" by blast
    with that show ?thesis
      by (simp add: tv map_of_map_restrict map_add_def)
  qed
  have notkeys: "trait_values obj' a = trait_values obj0 a" if "a \<notin> set (keys L C)" for a
    using that by (simp add: tv map_of_map_restrict map_add_def)
  have untouched: "trait_values obj' a = trait_values obj a"
    if "a \<notin> set (keys L C)" "a \<notin> fst ` set P" for a
    using notkeys [OF that(1)] set_all_other [OF s that(2)] by simp
  have dc: "find_trait L C ''domain_class'' =
      Some (if C = DateScale then mk_trait (Type ''Date'') Date_class True False
            else mk_trait (Type ''Float'') Float_class True False)"
    by (rule domain_class_trait)
  then have dcn: "''domain_class'' \<notin> set (keys L C)"
    by (auto simp: keys_iff mk_trait_def)
  have same: "trait_values obj' a = trait_values obj a"
    if "a \<noteq> ''domain_class'' \<or> ''domain_class'' \<notin> fst ` set P" for a
  proof (cases "a \<in> set (keys L C)")
    case True
    then show ?thesis by (rule inkeys)
  next
    case False
    show ?thesis
    proof (cases "a \<in> fst ` set P")
      case False
      with \<open>a \<notin> set (keys L C)\<close> show ?thesis by (rule untouched)
    next
      case True
      with o have "a \<in> set (own_names C)" by auto
      then obtain t where t: "map_of (own_traits C) a = Some t"
        by (auto simp: own_names_iff)
      from find_trait_own [OF t, of L] \<open>a \<notin> set (keys L C)\<close> have "\<not> sync t"
        by (auto simp: keys_iff)
      with own_traitD(3) [OF t] have "a = ''domain_class''" by simp
      with that True show ?thesis by simp
    qed
  qed
  have "trait_values obj' ''domain_class'' = trait_values obj0 ''domain_class''"
    by (rule notkeys [OF dcn])
  also have "\<dots> = map_option default_value (find_trait L C ''domain_class'')"
    by (rule new_default [OF n]) simp
  also have "\<dots> = Some (if C = DateScale then Date_class else Float_class)"
    unfolding dc by (simp add: mk_trait_def)
  finally have dflt: "trait_values obj' ''domain_class'' =
      Some (if C = DateScale then Date_class else Float_class)" .
  from same have "\<forall>name. name \<noteq> ''domain_class'' \<longrightarrow>
      trait_values obj' name = trait_values obj name"
    and "''domain_class'' \<notin> fst ` set P \<longrightarrow> trait_values obj' = trait_values obj"
    by (auto simp: fun_eq_iff)
  moreover from set_all_valid [OF r h0 v0] have "klass obj' = klass obj"
    by (simp add: k k0)
  ultimately show ?thesis using c' dflt by blast
qed

text \<open>
  Claim C6 says that the state of an object, given back to the constructor of its class,
  gives an object that is equal to the first field for field, for every parameter set.
  \<open>domain_class\<close> is a field that the constructor takes and that is not part of the state
  (it is declared with \<open>sync=False\<close>): a LinearScale constructed with the class \<open>CFloat\<close>
  holds \<open>CFloat\<close>, and the LinearScale constructed from its state holds \<open>Float\<close>.
\<close>

theorem domain_class_lost_in_roundtrip:
  "trait_values (projr (construct widget3 LinearScale [(''domain_class'', CFloat_class)]))
     ''domain_class'' = Some CFloat_class \<and>
   construct widget3 LinearScale (projr (get_state widget3
     (projr (construct widget3 LinearScale [(''domain_class'', CFloat_class)])))) \<noteq>
     Inl TraitError \<and>
   trait_values (projr (construct widget3 LinearScale (projr (get_state widget3
     (projr (construct widget3 LinearScale [(''domain_class'', CFloat_class)]))))))
     ''domain_class'' = Some Float_class \<and>
   CFloat_class \<noteq> Float_class"
proof -
  let ?P = "[(''domain_class'', CFloat_class)]"
  have "\<exists>obj. construct widget3 LinearScale ?P = Inr obj \<and>
      trait_values obj ''domain_class'' = Some CFloat_class"
    by (simp add: construct_def example_simps Float_class_def CFloat_class_def)
  then obtain obj where c: "construct widget3 LinearScale ?P = Inr obj"
    and dc: "trait_values obj ''domain_class'' = Some CFloat_class"
    by blast
  have o: "fst ` set ?P \<subseteq> set (own_names LinearScale)"
    by (simp add: own_names_def own_traits_def)
  let ?st = "map (\<lambda>k. (k, the (trait_values obj k))) (keys widget3 LinearScale)"
  from constructed_state [OF c o] have st: "get_state widget3 obj = Inr ?st" by blast
  have d: "distinct (map fst ?st)" by (simp add: comp_def distinct_keys)
  from roundtrip [OF c o d refl] obtain obj' where
    c': "construct widget3 LinearScale ?st = Inr obj'"
    and dc': "trait_values obj' ''domain_class'' = Some Float_class"
    by auto
  have "CFloat_class \<noteq> Float_class" by (simp add: Float_class_def CFloat_class_def)
  with dc dc' show ?thesis by (simp add: c st c')
qed

text \<open>
  Claim C6, amended: take an object constructed with parameters for fields of the module.
  Its state, given back to the constructor of its class as keyword arguments (in any
  order), gives an object with the same class and the same value in every field but
  possibly \<open>domain_class\<close>, which holds the default of the class again. When the parameters
  of the first construction leave \<open>domain_class\<close> alone, the two objects agree on every
  field. The \<open>domain\<close> of the ordinal scales is a field like the others and comes back as
  the same list.
\<close>

theorem state_roundtrip:
  assumes c: "construct L C P = Inr obj" and o: "fst ` set P \<subseteq> set (own_names C)"
  shows "\<exists>st. get_state L obj = Inr st \<and>
           (\<forall>kw. distinct (map fst kw) \<and> set kw = set st \<longrightarrow>
              (\<exists>obj'. construct L C kw = Inr obj' \<and> klass obj' = klass obj \<and>
                 (\<forall>name. name \<noteq> ''domain_class'' \<longrightarrow>
                    trait_values obj' name = trait_values obj name) \<and>
                 trait_values obj' ''domain_class'' =
                   Some (if C = DateScale then Date_class else Float_class) \<and>
                 (''domain_class'' \<notin> fst ` set P \<longrightarrow>
                    trait_values obj' = trait_values obj)))"
proof -
  let ?st = "map (\<lambda>k. (k, the (trait_values obj k))) (keys L C)"
  from constructed_state [OF c o] have st: "get_state L obj = Inr ?st" by blast
  have "\<exists>obj'. construct L C kw = Inr obj' \<and> klass obj' = klass obj \<and>
          (\<forall>name. name \<noteq> ''domain_class'' \<longrightarrow>
             trait_values obj' name = trait_values obj name) \<and>
          trait_values obj' ''domain_class'' =
            Some (if C = DateScale then Date_class else Float_class) \<and>
          (''domain_class'' \<notin> fst ` set P \<longrightarrow> trait_values obj' = trait_values obj)"
    if "distinct (map fst kw) \<and> set kw = set ?st" for kw
    using that roundtrip [OF c o, of kw] by blast
  then have "\<forall>kw. distinct (map fst kw) \<and> set kw = set ?st \<longrightarrow>
      (\<exists>obj'. construct L C kw = Inr obj' \<and> klass obj' = klass obj \<and>
          (\<forall>name. name \<noteq> ''domain_class'' \<longrightarrow>
             trait_values obj' name = trait_values obj name) \<and>
          trait_values obj' ''domain_class'' =
            Some (if C = DateScale then Date_class else Float_class) \<and>
          (''domain_class'' \<notin> fst ` set P \<longrightarrow> trait_values obj' = trait_values obj))"
    by (intro allI impI)
  with st show ?thesis by (intro exI [of _ ?st] conjI)
qed

text \<open>
  The statement for an OrdinalColorScale constructed with the domain \<open>low, mid, high\<close>: the
  object built from its state holds the same fields, and the domain in the same order.
\<close>

theorem state_roundtrip_OrdinalColorScale:
  "\<exists>obj st obj'.
      construct widget3 OrdinalColorScale
        [(''domain'', VList [VStr ''low'', VStr ''mid'', VStr ''high''])] = Inr obj \<and>
      fst ` set [(''domain'', VList [VStr ''low'', VStr ''mid'', VStr ''high''])] \<subseteq>
        set (own_names OrdinalColorScale) \<and>
      get_state widget3 obj = Inr st \<and>
      distinct (map fst st) \<and>
      construct widget3 OrdinalColorScale st = Inr obj' \<and>
      trait_values obj' = trait_values obj \<and>
      trait_values obj' ''domain'' = Some (VList [VStr ''low'', VStr ''mid'', VStr ''high''])"
proof -
  let ?P = "[(''domain'', VList [VStr ''low'', VStr ''mid'', VStr ''high''])]"
  have "\<exists>obj. construct widget3 OrdinalColorScale ?P = Inr obj \<and>
      trait_values obj ''domain'' = Some (VList [VStr ''low'', VStr ''mid'', VStr ''high''])"
    by (simp add: construct_def example_simps)
  then obtain obj where c: "construct widget3 OrdinalColorScale ?P = Inr obj"
    and dom: "trait_values obj ''domain'' =
      Some (VList [VStr ''low'', VStr ''mid'', VStr ''high''])"
    by blast
  have o: "fst ` set ?P \<subseteq> set (own_names OrdinalColorScale)"
    by (simp add: own_names_def own_traits_def)
  have d: "''domain_class'' \<notin> fst ` set ?P" by simp
  from state_roundtrip [OF c o] obtain st where
    st: "get_state widget3 obj = Inr st"
    and rt: "\<forall>kw. distinct (map fst kw) \<and> set kw = set st \<longrightarrow>
      (\<exists>obj'. construct widget3 OrdinalColorScale kw = Inr obj' \<and> klass obj' = klass obj \<and>
         (\<forall>name. name \<noteq> ''domain_class'' \<longrightarrow>
            trait_values obj' name = trait_values obj name) \<and>
         trait_values obj' ''domain_class'' =
           Some (if OrdinalColorScale = DateScale then Date_class else Float_class) \<and>
         (''domain_class'' \<notin> fst ` set ?P \<longrightarrow> trait_values obj' = trait_values obj))"
    by (elim exE conjE)
  from constructed_state [OF c o] st have ds: "distinct (map fst st)"
    by (auto simp: comp_def distinct_keys)
  with rt have "\<exists>obj'. construct widget3 OrdinalColorScale st = Inr obj' \<and>
         klass obj' = klass obj \<and>
         (\<forall>name. name \<noteq> ''domain_class'' \<longrightarrow>
            trait_values obj' name = trait_values obj name) \<and>
         trait_values obj' ''domain_class'' =
           Some (if OrdinalColorScale = DateScale then Date_class else Float_class) \<and>
         (''domain_class'' \<notin> fst ` set ?P \<longrightarrow> trait_values obj' = trait_values obj)"
    by blast
  then obtain obj' where r: "construct widget3 OrdinalColorScale st = Inr obj'"
    and e: "''domain_class'' \<notin> fst ` set ?P \<longrightarrow> trait_values obj' = trait_values obj"
    by blast
  from e d have "trait_values obj' = trait_values obj" by (rule mp)
  with c o st ds r dom show ?thesis
    by (intro exI [of _ obj] exI [of _ st] exI [of _ obj']) simp
qed

end
